theory Spec2Isabelle
  imports Main "HOL-Library.Word"
begin

section \<open>The cpufreq core (drivers/cpufreq/cpufreq.c)\<close>

text \<open>
  A shallow embedding of the policy layer of \<^verbatim>\<open>drivers/cpufreq/cpufreq.c\<close>.
  C \<^verbatim>\<open>unsigned int\<close> is a 32-bit word, C \<^verbatim>\<open>int\<close> return codes are
  integers, a pointer that may be \<^verbatim>\<open>NULL\<close> is an option.  A function of the
  source that dereferences a \<^verbatim>\<open>NULL\<close> pointer or hits \<^verbatim>\<open>BUG_ON\<close>
  has the result \<open>None\<close> (the kernel oopses and the call never returns).

  C identifiers with a leading double underscore are written with the prefix \<open>uu_\<close>.
  The build modelled has \<^verbatim>\<open>CONFIG_SMP\<close> and \<^verbatim>\<open>CONFIG_HOTPLUG_CPU\<close>
  set; \<^verbatim>\<open>CONFIG_UNI_CPU_POLICY_LIMIT\<close> and
  \<^verbatim>\<open>CONFIG_CPU_FREQ_GOV_PERFORMANCE\<close> are parameters.
\<close>

subsection \<open>Data\<close>

type_synonym u32 = "32 word"

text \<open>
  \<^verbatim>\<open>struct cpufreq_governor\<close>.  Governors are compared by pointer in the source;
  registered governors have pairwise different names
  (\<^verbatim>\<open>cpufreq_register_governor\<close>), so the record stands for the pointer.
  The callback \<^verbatim>\<open>governor->governor\<close> and the module owner are in the environment.
\<close>

record cpufreq_governor =
  name :: string
  max_transition_latency :: u32

record cpufreq_cpuinfo =
  max_freq :: u32
  min_freq :: u32
  transition_latency :: u32

text \<open>\<^verbatim>\<open>struct cpufreq_real_policy\<close> (the field \<^verbatim>\<open>user_policy\<close>).\<close>

record cpufreq_real_policy =
  min_real :: u32
  max_real :: u32
  policy_real :: u32
  governor_real :: "cpufreq_governor option"

text \<open>
  \<^verbatim>\<open>struct cpufreq_policy\<close>.  The fields \<^verbatim>\<open>min\<close>, \<^verbatim>\<open>max\<close> and
  \<^verbatim>\<open>policy\<close> are \<open>min_pol\<close>, \<open>max_pol\<close> and \<open>policy_pol\<close>.  A cpumask is the
  increasing list of its CPU numbers.
\<close>

record cpufreq_policy =
  cpus :: "nat list"
  related_cpus :: "nat list"
  cpu :: nat
  cpuinfo :: cpufreq_cpuinfo
  min_pol :: u32
  max_pol :: u32
  cur :: u32
  util :: u32
  policy_pol :: u32
  governor :: "cpufreq_governor option"
  user_policy :: cpufreq_real_policy

datatype gov_event = CPUFREQ_GOV_START | CPUFREQ_GOV_STOP | CPUFREQ_GOV_LIMITS

datatype policy_event = CPUFREQ_ADJUST | CPUFREQ_INCOMPATIBLE | CPUFREQ_NOTIFY | CPUFREQ_START

datatype transition_state =
  CPUFREQ_PRECHANGE | CPUFREQ_POSTCHANGE | CPUFREQ_RESUMECHANGE | CPUFREQ_SUSPENDCHANGE

text \<open>\<^verbatim>\<open>struct cpufreq_freqs\<close>.\<close>

record cpufreq_freqs =
  cpu_fr :: nat
  old :: u32
  new :: u32
  flags :: u32

text \<open>
  What the core does to its collaborators, in order: calls into the platform driver,
  governor callbacks with their return code, module references of governors, broadcasts on
  the two notifier chains, sysfs notifications and scheduled work (by policy pointer).
\<close>

datatype trace_ev =
    DrvInit nat
  | DrvExit nat
  | DrvVerify
  | DrvSetpolicy
  | PolicyNotify policy_event
  | ModuleGet string
  | ModulePut string
  | GovCall string gov_event int
  | Transition transition_state cpufreq_freqs
  | SysfsNotify string
  | ScheduleWork nat
  | KobjectPut nat

text \<open>
  \<^verbatim>\<open>struct cpufreq_driver\<close>: the callbacks the core calls.  \<open>drv_verify\<close> and
  \<open>drv_init\<close> work on the policy they are given and return it with their code; an
  optional callback that is \<^verbatim>\<open>NULL\<close> is \<open>None\<close> or \<open>False\<close>.
\<close>

record cpufreq_driver =
  drv_flags :: u32
  drv_init :: "cpufreq_policy \<Rightarrow> int \<times> cpufreq_policy"
  drv_verify :: "cpufreq_policy \<Rightarrow> int \<times> cpufreq_policy"
  drv_setpolicy :: "(cpufreq_policy \<Rightarrow> int) option"
  drv_target :: bool
  drv_get :: "(nat \<Rightarrow> u32) option"
  drv_exit :: bool
  drv_bios_limit :: bool
  drv_attr :: "string list"

text \<open>
  The environment of one call: the registered driver (\<^verbatim>\<open>cpufreq_driver\<close>), the two
  quality-of-service values \<^verbatim>\<open>pm_qos_request\<close> returns (cast to unsigned), the policy
  notifier chain (observers may change the candidate policy in place), the governor
  callbacks, \<^verbatim>\<open>try_module_get\<close> on a governor's owner, and the performance governor
  when \<^verbatim>\<open>CONFIG_CPU_FREQ_GOV_PERFORMANCE\<close> is set.  Then what the rest of the
  kernel answers: whether \<^verbatim>\<open>CONFIG_UNI_CPU_POLICY_LIMIT\<close> is set,
  \<^verbatim>\<open>nr_cpu_ids\<close>, \<^verbatim>\<open>try_module_get\<close> on the driver's owner,
  \<^verbatim>\<open>request_module\<close> (its code and the governor the loaded module registers),
  \<^verbatim>\<open>get_max_lock\<close> of \<^verbatim>\<open>mach/cpufreq.h\<close>,
  \<^verbatim>\<open>CPUFREQ_DEFAULT_GOVERNOR\<close>, the address \<^verbatim>\<open>kzalloc\<close> returns
  (\<open>None\<close> when it fails), whether the two cpumask allocations succeed, and the return
  codes of \<^verbatim>\<open>kobject_init_and_add\<close>, of \<^verbatim>\<open>sysfs_create_file\<close> by
  attribute name and of \<^verbatim>\<open>sysfs_create_link\<close> by the CPU device linked from.
  Reference counts of kobjects are not part of the model.
\<close>

record env =
  cpufreq_driver :: "cpufreq_driver option"
  pm_qos_cpu_freq_min :: u32
  pm_qos_cpu_freq_max :: u32
  policy_notifier :: "policy_event \<Rightarrow> cpufreq_policy \<Rightarrow> cpufreq_policy"
  governor_fn :: "cpufreq_governor \<Rightarrow> cpufreq_policy \<Rightarrow> gov_event \<Rightarrow> int"
  try_module_get_gov :: "cpufreq_governor \<Rightarrow> bool"
  cpufreq_gov_performance :: "cpufreq_governor option"
  config_uni_cpu_policy_limit :: bool
  nr_cpu_ids :: nat
  try_module_get_drv :: bool
  request_module :: "string \<Rightarrow> int \<times> cpufreq_governor option"
  get_max_lock :: "nat \<Rightarrow> u32"
  cpufreq_default_governor :: "cpufreq_governor option"
  kzalloc :: "nat option"
  alloc_cpumask_var :: bool
  zalloc_cpumask_var :: bool
  kobject_init_and_add :: int
  sysfs_create_file :: "string \<Rightarrow> int"
  sysfs_create_link :: "nat \<Rightarrow> int"

text \<open>
  Modelled from the spec: the error numbers and flag bits are declared in headers that are
  not part of the sources at hand (\<^verbatim>\<open>errno.h\<close>, \<^verbatim>\<open>linux/cpufreq.h\<close>); the
  values are the kernel's.
\<close>

definition EINVAL :: int where "EINVAL = 22"
definition EBUSY :: int where "EBUSY = 16"
definition ENOMEM :: int where "ENOMEM = 12"
definition ENODEV :: int where "ENODEV = 19"
definition EIO :: int where "EIO = 5"
definition CPUFREQ_CONST_LOOPS :: u32 where "CPUFREQ_CONST_LOOPS = 2"
definition CPUFREQ_NAME_LEN :: nat where "CPUFREQ_NAME_LEN = 16"
definition CPUFREQ_POLICY_POWERSAVE :: u32 where "CPUFREQ_POLICY_POWERSAVE = 1"
definition CPUFREQ_POLICY_PERFORMANCE :: u32 where "CPUFREQ_POLICY_PERFORMANCE = 2"

subsection \<open>The governor call\<close>

text \<open>
  \<^verbatim>\<open>__cpufreq_governor(policy, event)\<close>: substitute the performance governor when the
  hardware is too slow for the policy's governor, take a module reference, call the
  governor, drop the reference unless a START succeeded, and drop the kept one after a
  successful STOP.  Returns the code, the policy (its governor may have been replaced) and
  the events.
\<close>

definition uu_cpufreq_governor ::
  "env \<Rightarrow> cpufreq_policy \<Rightarrow> gov_event \<Rightarrow> (int \<times> cpufreq_policy \<times> trace_ev list) option" where
  "uu_cpufreq_governor e policy event =
    (case governor policy of
       None \<Rightarrow> None
     | Some g \<Rightarrow>
        if max_transition_latency g \<noteq> 0 \<and>
           transition_latency (cpuinfo policy) > max_transition_latency g \<and>
           cpufreq_gov_performance e = None
        then Some (- EINVAL, policy, [])
        else
          let g' = (if max_transition_latency g \<noteq> 0 \<and>
                       transition_latency (cpuinfo policy) > max_transition_latency g
                    then (case cpufreq_gov_performance e of Some gov \<Rightarrow> gov | None \<Rightarrow> g)
                    else g);
              policy' = policy\<lparr>governor := Some g'\<rparr>
          in if \<not> try_module_get_gov e g' then Some (- EINVAL, policy', [])
             else
               let ret = governor_fn e g' policy' event
               in Some (ret, policy',
                    [ModuleGet (name g'), GovCall (name g') event ret]
                    @ (if event \<noteq> CPUFREQ_GOV_START \<or> ret \<noteq> 0 then [ModulePut (name g')] else [])
                    @ (if event = CPUFREQ_GOV_STOP \<and> ret = 0 then [ModulePut (name g')] else [])))"

subsection \<open>Setting a policy\<close>

text \<open>
  What \<^verbatim>\<open>__cpufreq_cpu_get(0, 0)\<close> gives \<^verbatim>\<open>__cpufreq_set_policy\<close> under
  \<^verbatim>\<open>CONFIG_UNI_CPU_POLICY_LIMIT\<close>: \<^verbatim>\<open>NULL\<close>, the live policy \<^verbatim>\<open>data\<close> itself
  (CPU 0 is managed by the policy that is being set), or another policy.  The parameter
  \<open>uni\<close> of the definitions below is \<open>None\<close> when the option is not set, and
  otherwise the result of that lookup.
\<close>

datatype cpu0_policy = Cpu0_null | Cpu0_same | Cpu0_other cpufreq_policy

text \<open>
  The governor written to \<^verbatim>\<open>data->governor\<close> before the START of a governor switch.
  The source reads

  \<^verbatim>\<open>#ifdef CONFIG_UNI_CPU_POLICY_LIMIT\<close>
  \<^verbatim>\<open>if (policy->cpu && cpu0_policy) { data->governor = cpu0_policy->governor; }\<close>
  \<^verbatim>\<open>else { data->governor = policy->governor; }\<close>
  \<^verbatim>\<open>#endif\<close>
  \<^verbatim>\<open>data->governor = policy->governor;\<close>
  \<^verbatim>\<open>#endif\<close>

  with one \<^verbatim>\<open>#endif\<close> too many, so the file does not preprocess as it stands.  It
  is read here with \<^verbatim>\<open>#else\<close> in place of the first \<^verbatim>\<open>#endif\<close>, which is how the
  block that commits the limits a few lines above is written and what the \<^verbatim>\<open>else\<close>
  branch inside the block is for: with the option the governor of the policy of CPU 0
  for a request that names another CPU, and the requested governor otherwise.  Without the
  option, and for a request that names CPU 0, both readings (this one, and the one that
  drops the last \<^verbatim>\<open>#endif\<close>) write the requested governor.  \<^verbatim>\<open>cpu0_policy\<close> was
  looked up, and dereferenced, when the limits were committed; \<open>data\<close> is the live policy
  as it is after the STOP of the old governor.
\<close>

definition switch_governor ::
  "cpu0_policy option \<Rightarrow> cpufreq_policy \<Rightarrow> cpufreq_policy \<Rightarrow> cpufreq_governor option" where
  "switch_governor uni data policy =
    (case uni of
       None \<Rightarrow> governor policy
     | Some cpu0 \<Rightarrow>
         if cpu policy \<noteq> 0 then
           (case cpu0 of
              Cpu0_null \<Rightarrow> governor policy
            | Cpu0_same \<Rightarrow> governor data
            | Cpu0_other c0 \<Rightarrow> governor c0)
         else governor policy)"

text \<open>
  The governor half of \<^verbatim>\<open>__cpufreq_set_policy\<close> (the \<^verbatim>\<open>else\<close> branch of
  \<^verbatim>\<open>if (cpufreq_driver->setpolicy)\<close>): on a governor switch stop the old governor,
  start the new one and, when that fails, put the old governor back (if there was one) and
  start it again, ignoring the result, and return \<^verbatim>\<open>-EINVAL\<close>; otherwise, and after
  a successful switch, send LIMITS.  \<open>ret\<close> is the code so far (0 at this point).
\<close>

definition set_policy_governor ::
  "env \<Rightarrow> cpu0_policy option \<Rightarrow> cpufreq_policy \<Rightarrow> cpufreq_policy \<Rightarrow>
     (int \<times> cpufreq_policy \<times> trace_ev list) option" where
  "set_policy_governor e uni data policy =
    (if governor policy \<noteq> governor data then
       let old_gov = governor data;
           (data1, t1) = (case old_gov of
                            None \<Rightarrow> (data, [])
                          | Some _ \<Rightarrow> (case uu_cpufreq_governor e data CPUFREQ_GOV_STOP of
                                        Some (_, d, t) \<Rightarrow> (d, t)
                                      | None \<Rightarrow> (data, [])));
           data2 = data1\<lparr>governor := switch_governor uni data1 policy\<rparr>
       in case uu_cpufreq_governor e data2 CPUFREQ_GOV_START of
            None \<Rightarrow> None
          | Some (r, data3, t2) \<Rightarrow>
              if r \<noteq> 0 then
                (case old_gov of
                   None \<Rightarrow> Some (- EINVAL, data3, t1 @ t2)
                 | Some og \<Rightarrow>
                     (case uu_cpufreq_governor e (data3\<lparr>governor := Some og\<rparr>) CPUFREQ_GOV_START of
                        None \<Rightarrow> None
                      | Some (_, data4, t3) \<Rightarrow> Some (- EINVAL, data4, t1 @ t2 @ t3)))
              else
                (case uu_cpufreq_governor e data3 CPUFREQ_GOV_LIMITS of
                   None \<Rightarrow> None
                 | Some (_, data4, t3) \<Rightarrow> Some (0, data4, t1 @ t2 @ t3))
     else
       (case uu_cpufreq_governor e data CPUFREQ_GOV_LIMITS of
          None \<Rightarrow> None
        | Some (_, data1, t) \<Rightarrow> Some (0, data1, t)))"

text \<open>
  The commit of the effective bounds.  With \<^verbatim>\<open>CONFIG_UNI_CPU_POLICY_LIMIT\<close> the
  bounds of a request that names a CPU other than 0 are copied from the policy of CPU 0,
  which \<^verbatim>\<open>__cpufreq_cpu_get(0, 0)\<close> looks up and which is dereferenced unchecked.
\<close>

definition commit_limits ::
  "cpu0_policy option \<Rightarrow> cpufreq_policy \<Rightarrow> cpufreq_policy \<Rightarrow> cpufreq_policy option" where
  "commit_limits uni data policy =
    (case uni of
       None \<Rightarrow> Some (data\<lparr>min_pol := min_pol policy, max_pol := max_pol policy\<rparr>)
     | Some cpu0 \<Rightarrow>
         if cpu policy \<noteq> 0 then
           (case cpu0 of
              Cpu0_null \<Rightarrow> None
            | Cpu0_same \<Rightarrow> Some (data\<lparr>min_pol := min_pol data, max_pol := max_pol data\<rparr>)
            | Cpu0_other c0 \<Rightarrow> Some (data\<lparr>min_pol := min_pol c0, max_pol := max_pol c0\<rparr>))
         else Some (data\<lparr>min_pol := min_pol policy, max_pol := max_pol policy\<rparr>))"

text \<open>
  The first statements of \<^verbatim>\<open>__cpufreq_set_policy\<close>: the request clamped to
  the quality-of-service limits (themselves bounded by the user's limits), with the live
  policy's \<^verbatim>\<open>cpuinfo\<close> copied in.
\<close>

definition qos_clamped :: "env \<Rightarrow> cpufreq_policy \<Rightarrow> cpufreq_policy \<Rightarrow> cpufreq_policy" where
  "qos_clamped e data policy =
    (let pmin = min_pol policy;
         pmax = max_pol policy;
         qmin = min (pm_qos_cpu_freq_min e) (max_real (user_policy data));
         qmax = max (pm_qos_cpu_freq_max e) (min_real (user_policy data))
     in policy\<lparr>min_pol := max pmin qmin, max_pol := min pmax qmax, cpuinfo := cpuinfo data\<rparr>)"

text \<open>
  \<^verbatim>\<open>__cpufreq_set_policy(data, policy)\<close>: \<open>data\<close> is the live policy, \<open>policy\<close> the
  request.  Returns the code, the live policy, the request as the caller sees it afterwards
  and the events.  The label \<^verbatim>\<open>error_out\<close> writes \<open>pmin\<close> and \<open>pmax\<close> back into
  the request on every path.
\<close>

definition uu_cpufreq_set_policy ::
  "env \<Rightarrow> cpu0_policy option \<Rightarrow> cpufreq_policy \<Rightarrow> cpufreq_policy \<Rightarrow>
     (int \<times> cpufreq_policy \<times> cpufreq_policy \<times> trace_ev list) option" where
  "uu_cpufreq_set_policy e uni data policy =
    (let pmin = min_pol policy;
         pmax = max_pol policy;
         policy1 = qos_clamped e data policy
     in if min_pol policy1 > max_real (user_policy data) \<or>
           max_pol policy1 < min_real (user_policy data)
        then Some (- EINVAL, data, policy1\<lparr>min_pol := pmin, max_pol := pmax\<rparr>, [])
        else
          (case cpufreq_driver e of
             None \<Rightarrow> None
           | Some drv \<Rightarrow>
              let (r1, policy2) = drv_verify drv policy1
              in if r1 \<noteq> 0
                 then Some (r1, data, policy2\<lparr>min_pol := pmin, max_pol := pmax\<rparr>, [DrvVerify])
                 else
                   let policy3 = policy_notifier e CPUFREQ_ADJUST policy2;
                       policy4 = policy_notifier e CPUFREQ_INCOMPATIBLE policy3;
                       (r2, policy5) = drv_verify drv policy4;
                       t2 = [DrvVerify, PolicyNotify CPUFREQ_ADJUST,
                             PolicyNotify CPUFREQ_INCOMPATIBLE, DrvVerify]
                   in if r2 \<noteq> 0
                      then Some (r2, data, policy5\<lparr>min_pol := pmin, max_pol := pmax\<rparr>, t2)
                      else
                        let policy6 = policy_notifier e CPUFREQ_NOTIFY policy5;
                            t3 = t2 @ [PolicyNotify CPUFREQ_NOTIFY]
                        in (case commit_limits uni data policy6 of
                              None \<Rightarrow> None
                            | Some data1 \<Rightarrow>
                               (case drv_setpolicy drv of
                                  Some setpolicy \<Rightarrow>
                                    Some (setpolicy policy6,
                                          data1\<lparr>policy_pol := policy_pol policy6\<rparr>,
                                          policy6\<lparr>min_pol := pmin, max_pol := pmax\<rparr>,
                                          t3 @ [DrvSetpolicy])
                                | None \<Rightarrow>
                                    (case set_policy_governor e uni data1 policy6 of
                                       None \<Rightarrow> None
                                     | Some (r, data2, t4) \<Rightarrow>
                                         Some (r, data2,
                                               policy6\<lparr>min_pol := pmin, max_pol := pmax\<rparr>,
                                               t3 @ t4))))))"

text \<open>
  The candidate that reaches the commit when both \<^verbatim>\<open>verify\<close> calls succeed: the
  clamped request after the first \<^verbatim>\<open>verify\<close>, the ADJUST and INCOMPATIBLE
  observers, the second \<^verbatim>\<open>verify\<close> and the NOTIFY observers.
\<close>

definition candidate :: "env \<Rightarrow> cpufreq_driver \<Rightarrow> cpufreq_policy \<Rightarrow> cpufreq_policy \<Rightarrow> cpufreq_policy" where
  "candidate e drv data policy =
    policy_notifier e CPUFREQ_NOTIFY
      (snd (drv_verify drv
        (policy_notifier e CPUFREQ_INCOMPATIBLE
          (policy_notifier e CPUFREQ_ADJUST
            (snd (drv_verify drv (qos_clamped e data policy)))))))"

text \<open>
  Both \<^verbatim>\<open>verify\<close> calls are reached and succeed: the clamped bounds do not cross
  the user's bounds and the driver accepts the request twice.
\<close>

definition verified :: "env \<Rightarrow> cpufreq_driver \<Rightarrow> cpufreq_policy \<Rightarrow> cpufreq_policy \<Rightarrow> bool" where
  "verified e drv data policy =
    (\<not> (max_real (user_policy data) < min_pol (qos_clamped e data policy) \<or>
         max_pol (qos_clamped e data policy) < min_real (user_policy data)) \<and>
     fst (drv_verify drv (qos_clamped e data policy)) = 0 \<and>
     fst (drv_verify drv
           (policy_notifier e CPUFREQ_INCOMPATIBLE
             (policy_notifier e CPUFREQ_ADJUST
               (snd (drv_verify drv (qos_clamped e data policy)))))) = 0)"

text \<open>
  \<^verbatim>\<open>show_one(scaling_min_freq, min)\<close> and \<^verbatim>\<open>show_one(scaling_max_freq, max)\<close>,
  \<^verbatim>\<open>show_one(policy_min_freq, user_policy.min)\<close> and
  \<^verbatim>\<open>show_one(policy_max_freq, user_policy.max)\<close>: the number that
  \<^verbatim>\<open>sprintf(buf, "%u\n", ...)\<close> prints.
\<close>

definition show_scaling_min_freq :: "cpufreq_policy \<Rightarrow> u32" where
  "show_scaling_min_freq policy = min_pol policy"

definition show_scaling_max_freq :: "cpufreq_policy \<Rightarrow> u32" where
  "show_scaling_max_freq policy = max_pol policy"

definition show_policy_min_freq :: "cpufreq_policy \<Rightarrow> u32" where
  "show_policy_min_freq policy = min_real (user_policy policy)"

definition show_policy_max_freq :: "cpufreq_policy \<Rightarrow> u32" where
  "show_policy_max_freq policy = max_real (user_policy policy)"

subsection \<open>The global state\<close>

text \<open>
  A reader-writer semaphore as one thread of control sees it: the number of readers and
  whether a writer holds it.  \<open>down\<close> has no result when the semaphore cannot be taken
  (the caller would sleep until another thread releases it).
\<close>

record rw_semaphore =
  readers :: nat
  writer :: bool

datatype rw_mode = Read | Write

definition down :: "rw_mode \<Rightarrow> rw_semaphore \<Rightarrow> rw_semaphore option" where
  "down mode sem =
    (case mode of
       Read \<Rightarrow> if writer sem then None else Some (sem\<lparr>readers := readers sem + 1\<rparr>)
     | Write \<Rightarrow> if writer sem \<or> readers sem > 0 then None else Some (sem\<lparr>writer := True\<rparr>))"

definition up :: "rw_mode \<Rightarrow> rw_semaphore \<Rightarrow> rw_semaphore" where
  "up mode sem =
    (case mode of
       Read \<Rightarrow> sem\<lparr>readers := readers sem - 1\<rparr>
     | Write \<Rightarrow> sem\<lparr>writer := False\<rparr>)"

text \<open>\<^verbatim>\<open>struct cpufreq_cpu_save_data\<close>.\<close>

record cpufreq_cpu_save_data =
  gov :: string
  max_save :: u32
  min_save :: u32

text \<open>
  The per-CPU variables, the policies by address (\<^verbatim>\<open>cpufreq_cpu_data\<close> holds
  addresses, \<open>None\<close> for \<^verbatim>\<open>NULL\<close>), \<^verbatim>\<open>cpu_online_mask\<close>, the governor
  list and the events so far.
\<close>

record kstate =
  cpufreq_cpu_data :: "nat \<Rightarrow> nat option"
  policies :: "nat \<Rightarrow> cpufreq_policy"
  cpufreq_policy_cpu :: "nat \<Rightarrow> int"
  cpufreq_policy_save :: "nat \<Rightarrow> cpufreq_cpu_save_data"
  cpu_policy_rwsem :: "nat \<Rightarrow> rw_semaphore"
  cpu_online_mask :: "nat list"
  cpufreq_governor_list :: "cpufreq_governor list"
  trace :: "trace_ev list"

definition cpu_online :: "kstate \<Rightarrow> nat \<Rightarrow> bool" where
  "cpu_online s c = (c \<in> set (cpu_online_mask s))"

subsection \<open>The policy semaphore\<close>

text \<open>
  \<^verbatim>\<open>lock_policy_rwsem(mode, cpu)\<close>, the macro that defines
  \<^verbatim>\<open>lock_policy_rwsem_read\<close> and \<^verbatim>\<open>lock_policy_rwsem_write\<close>.
\<close>

definition lock_policy_rwsem :: "rw_mode \<Rightarrow> nat \<Rightarrow> kstate \<Rightarrow> (int \<times> kstate) option" where
  "lock_policy_rwsem mode c s =
    (let policy_cpu = cpufreq_policy_cpu s c
     in if policy_cpu = - 1 then None
        else
          (case down mode (cpu_policy_rwsem s (nat policy_cpu)) of
             None \<Rightarrow> None
           | Some sem \<Rightarrow>
               let s1 = s\<lparr>cpu_policy_rwsem := (cpu_policy_rwsem s)(nat policy_cpu := sem)\<rparr>
               in if \<not> cpu_online s1 c
                  then Some (- 1, s1\<lparr>cpu_policy_rwsem :=
                                        (cpu_policy_rwsem s1)(nat policy_cpu :=
                                           up mode (cpu_policy_rwsem s1 (nat policy_cpu)))\<rparr>)
                  else Some (0, s1)))"

definition lock_policy_rwsem_read :: "nat \<Rightarrow> kstate \<Rightarrow> (int \<times> kstate) option" where
  "lock_policy_rwsem_read = lock_policy_rwsem Read"

definition lock_policy_rwsem_write :: "nat \<Rightarrow> kstate \<Rightarrow> (int \<times> kstate) option" where
  "lock_policy_rwsem_write = lock_policy_rwsem Write"

text \<open>\<^verbatim>\<open>unlock_policy_rwsem_read\<close> and \<^verbatim>\<open>unlock_policy_rwsem_write\<close>.\<close>

definition unlock_policy_rwsem :: "rw_mode \<Rightarrow> nat \<Rightarrow> kstate \<Rightarrow> kstate option" where
  "unlock_policy_rwsem mode c s =
    (let policy_cpu = cpufreq_policy_cpu s c
     in if policy_cpu = - 1 then None
        else Some (s\<lparr>cpu_policy_rwsem :=
                       (cpu_policy_rwsem s)(nat policy_cpu :=
                          up mode (cpu_policy_rwsem s (nat policy_cpu)))\<rparr>))"

definition unlock_policy_rwsem_read :: "nat \<Rightarrow> kstate \<Rightarrow> kstate option" where
  "unlock_policy_rwsem_read = unlock_policy_rwsem Read"

definition unlock_policy_rwsem_write :: "nat \<Rightarrow> kstate \<Rightarrow> kstate option" where
  "unlock_policy_rwsem_write = unlock_policy_rwsem Write"

text \<open>Whether the semaphore of the domain of CPU \<open>c\<close> is held in the given mode.\<close>

definition held :: "rw_mode \<Rightarrow> kstate \<Rightarrow> nat \<Rightarrow> bool" where
  "held mode s c =
    (let sem = cpu_policy_rwsem s (nat (cpufreq_policy_cpu s c))
     in case mode of Read \<Rightarrow> readers sem > 0 | Write \<Rightarrow> writer sem)"

subsection \<open>Frequency transitions\<close>

text \<open>
  \<^verbatim>\<open>cpufreq_notify_transition(freqs, state)\<close>.  The observers on the transition chain
  see \<open>freqs\<close> as it is when they are called; the event records it.  With
  \<^verbatim>\<open>CONFIG_SMP\<close>, \<^verbatim>\<open>adjust_jiffies\<close> does nothing.  Returns \<open>freqs\<close> as the
  caller sees it afterwards and the state.
\<close>

definition cpufreq_notify_transition ::
  "env \<Rightarrow> cpufreq_freqs \<Rightarrow> transition_state \<Rightarrow> kstate \<Rightarrow> (cpufreq_freqs \<times> kstate) option" where
  "cpufreq_notify_transition e freqs state s =
    (case cpufreq_driver e of
       None \<Rightarrow> None
     | Some drv \<Rightarrow>
       (let freqs1 = freqs\<lparr>flags := drv_flags drv\<rparr>;
            policy = cpufreq_cpu_data s (cpu_fr freqs1)
        in case state of
             CPUFREQ_PRECHANGE \<Rightarrow>
              (let freqs2 =
                     (if and (drv_flags drv) CPUFREQ_CONST_LOOPS = 0 then
                        (case policy of
                           Some p \<Rightarrow>
                             if cpu (policies s p) = cpu_fr freqs1 \<and> cur (policies s p) \<noteq> 0 \<and>
                                cur (policies s p) \<noteq> old freqs1
                             then freqs1\<lparr>old := cur (policies s p)\<rparr>
                             else freqs1
                         | None \<Rightarrow> freqs1)
                      else freqs1)
               in Some (freqs2, s\<lparr>trace := trace s @ [Transition CPUFREQ_PRECHANGE freqs2]\<rparr>))
           | CPUFREQ_POSTCHANGE \<Rightarrow>
              (let s1 = s\<lparr>trace := trace s @ [Transition CPUFREQ_POSTCHANGE freqs1]\<rparr>
               in case policy of
                     Some p \<Rightarrow>
                       if cpu (policies s1 p) = cpu_fr freqs1
                       then Some (freqs1,
                              s1\<lparr>trace := trace s1 @ [SysfsNotify ''scaling_cur_freq''],
                                 policies := (policies s1)(p := (policies s1 p)\<lparr>cur := new freqs1\<rparr>)\<rparr>)
                       else Some (freqs1, s1)
                   | None \<Rightarrow> Some (freqs1, s1))
           | _ \<Rightarrow> Some (freqs1, s)))"

text \<open>
  \<^verbatim>\<open>cpufreq_out_of_sync(cpu, old_freq, new_freq)\<close>.  The local \<^verbatim>\<open>freqs\<close> is not
  initialised beyond the three fields; its \<^verbatim>\<open>flags\<close> are written by the first
  notification before anything reads them.
\<close>

definition cpufreq_out_of_sync :: "env \<Rightarrow> nat \<Rightarrow> u32 \<Rightarrow> u32 \<Rightarrow> kstate \<Rightarrow> kstate option" where
  "cpufreq_out_of_sync e c old_freq new_freq s =
    (let freqs = \<lparr>cpu_fr = c, old = old_freq, new = new_freq, flags = 0\<rparr>
     in case cpufreq_notify_transition e freqs CPUFREQ_PRECHANGE s of
          None \<Rightarrow> None
        | Some (freqs1, s1) \<Rightarrow>
            (case cpufreq_notify_transition e freqs1 CPUFREQ_POSTCHANGE s1 of
               None \<Rightarrow> None
             | Some (_, s2) \<Rightarrow> Some s2))"

text \<open>
  \<^verbatim>\<open>__cpufreq_get(cpu)\<close>: the policy pointer of the CPU is dereferenced only when the
  driver reported a nonzero frequency (\<^verbatim>\<open>&&\<close> evaluates left to right).
\<close>

definition uu_cpufreq_get :: "env \<Rightarrow> nat \<Rightarrow> kstate \<Rightarrow> (u32 \<times> kstate) option" where
  "uu_cpufreq_get e c s =
    (case cpufreq_driver e of
       None \<Rightarrow> None
     | Some drv \<Rightarrow>
        (case drv_get drv of
           None \<Rightarrow> Some (0, s)
         | Some get \<Rightarrow>
            let ret_freq = get c
            in if ret_freq = 0 then Some (ret_freq, s)
               else
                 (case cpufreq_cpu_data s c of
                    None \<Rightarrow> None
                  | Some p \<Rightarrow>
                     if cur (policies s p) \<noteq> 0 \<and> and (drv_flags drv) CPUFREQ_CONST_LOOPS = 0
                     then
                       if ret_freq \<noteq> cur (policies s p) then
                         (case cpufreq_out_of_sync e c (cur (policies s p)) ret_freq s of
                            None \<Rightarrow> None
                          | Some s1 \<Rightarrow>
                              Some (ret_freq, s1\<lparr>trace := trace s1 @ [ScheduleWork p]\<rparr>))
                       else Some (ret_freq, s)
                     else Some (ret_freq, s))))"

subsection \<open>Looking up policies and governors\<close>

text \<open>
  \<^verbatim>\<open>__cpufreq_cpu_get(cpu, sysfs)\<close>: the address of the policy of \<open>c\<close>, or
  \<^verbatim>\<open>NULL\<close> when the CPU number is out of range, no driver is registered, the
  driver's module is going away or the CPU has no policy.  The two variants differ in the
  kobject reference only.
\<close>

definition uu_cpufreq_cpu_get :: "env \<Rightarrow> kstate \<Rightarrow> nat \<Rightarrow> nat option" where
  "uu_cpufreq_cpu_get e s c =
    (if c \<ge> nr_cpu_ids e then None
     else case cpufreq_driver e of
            None \<Rightarrow> None
          | Some drv \<Rightarrow> if \<not> try_module_get_drv e then None else cpufreq_cpu_data s c)"

definition cpufreq_cpu_get :: "env \<Rightarrow> kstate \<Rightarrow> nat \<Rightarrow> nat option" where
  "cpufreq_cpu_get = uu_cpufreq_cpu_get"

text \<open>\<^verbatim>\<open>cpufreq_get_policy(policy, cpu)\<close>: the code and the copy written to \<open>policy\<close>.\<close>

definition cpufreq_get_policy :: "env \<Rightarrow> kstate \<Rightarrow> nat \<Rightarrow> int \<times> cpufreq_policy option" where
  "cpufreq_get_policy e s c =
    (case cpufreq_cpu_get e s c of
       None \<Rightarrow> (- EINVAL, None)
     | Some p \<Rightarrow> (0, Some (policies s p)))"

text \<open>
  Modelled from the spec: \<^verbatim>\<open>strnicmp\<close>, \<^verbatim>\<open>strncpy\<close> and \<^verbatim>\<open>sscanf\<close> are
  library routines outside the sources at hand.  \<open>strnicmp_eq a b n\<close> is
  \<^verbatim>\<open>strnicmp(a, b, n) == 0\<close>: the first \<open>n\<close> characters agree up to case.
  \<open>sscanf_s15\<close> is \<^verbatim>\<open>sscanf(buf, "%15s", str)\<close>: nothing is converted from an empty
  buffer; otherwise leading white space is skipped and at most 15 characters up to the next
  white space are stored.
\<close>

definition tolower :: "char \<Rightarrow> char" where
  "tolower c = (if (65::nat) \<le> of_char c \<and> of_char c \<le> (90::nat)
                then char_of (of_char c + (32::nat)) else c)"

definition strnicmp_eq :: "string \<Rightarrow> string \<Rightarrow> nat \<Rightarrow> bool" where
  "strnicmp_eq a b n = (map tolower (take n a) = map tolower (take n b))"

definition isspace :: "char \<Rightarrow> bool" where
  "isspace c = (c \<in> {CHR '' '', CHR 0x09, CHR 0x0A, CHR 0x0B, CHR 0x0C, CHR 0x0D})"

definition sscanf_s15 :: "string \<Rightarrow> string option" where
  "sscanf_s15 buf =
    (if buf = [] then None
     else Some (take 15 (takeWhile (\<lambda>c. \<not> isspace c) (dropWhile isspace buf))))"

text \<open>\<^verbatim>\<open>__find_governor(str_governor)\<close>: the first governor of the list whose name matches.\<close>

definition uu_find_governor :: "kstate \<Rightarrow> string \<Rightarrow> cpufreq_governor option" where
  "uu_find_governor s str_governor =
    find (\<lambda>t. strnicmp_eq str_governor (name t) CPUFREQ_NAME_LEN) (cpufreq_governor_list s)"

text \<open>
  \<^verbatim>\<open>cpufreq_parse_governor(str_governor, &policy, &governor)\<close>, applied to the policy
  whose two fields it writes.  A governor that is not on the list is looked for again after
  \<^verbatim>\<open>request_module\<close>; the module loaded registers its governor at the head of the
  list unless one of that name is there.
\<close>

definition cpufreq_parse_governor ::
  "env \<Rightarrow> string \<Rightarrow> cpufreq_policy \<Rightarrow> kstate \<Rightarrow> int \<times> cpufreq_policy \<times> kstate" where
  "cpufreq_parse_governor e str_governor new_policy s =
    (case cpufreq_driver e of
       None \<Rightarrow> (- EINVAL, new_policy, s)
     | Some drv \<Rightarrow>
        if drv_setpolicy drv \<noteq> None then
          if strnicmp_eq str_governor ''performance'' CPUFREQ_NAME_LEN
          then (0, new_policy\<lparr>policy_pol := CPUFREQ_POLICY_PERFORMANCE\<rparr>, s)
          else if strnicmp_eq str_governor ''powersave'' CPUFREQ_NAME_LEN
          then (0, new_policy\<lparr>policy_pol := CPUFREQ_POLICY_POWERSAVE\<rparr>, s)
          else (- EINVAL, new_policy, s)
        else if drv_target drv then
          (case uu_find_governor s str_governor of
             Some t \<Rightarrow> (0, new_policy\<lparr>governor := Some t\<rparr>, s)
           | None \<Rightarrow>
              let (ret, loaded) = request_module e (''cpufreq_'' @ str_governor);
                  s1 = (case loaded of
                          None \<Rightarrow> s
                        | Some g \<Rightarrow>
                            if uu_find_governor s (name g) = None
                            then s\<lparr>cpufreq_governor_list := g # cpufreq_governor_list s\<rparr>
                            else s)
              in (case (if ret = 0 then uu_find_governor s1 str_governor else None) of
                    Some t \<Rightarrow> (0, new_policy\<lparr>governor := Some t\<rparr>, s1)
                  | None \<Rightarrow> (- EINVAL, new_policy, s1)))
        else (- EINVAL, new_policy, s))"

subsection \<open>The attribute \<^verbatim>\<open>scaling_governor\<close>\<close>

text \<open>
  The policy of CPU 0 that \<^verbatim>\<open>__cpufreq_set_policy\<close> looks up under
  \<^verbatim>\<open>CONFIG_UNI_CPU_POLICY_LIMIT\<close> when it is called for the live policy at address
  \<open>p\<close>.
\<close>

definition uni_lookup :: "env \<Rightarrow> nat \<Rightarrow> kstate \<Rightarrow> cpu0_policy option" where
  "uni_lookup e p s =
    (if config_uni_cpu_policy_limit e
     then Some (case uu_cpufreq_cpu_get e s 0 of
                  None \<Rightarrow> Cpu0_null
                | Some p0 \<Rightarrow> if p0 = p then Cpu0_same else Cpu0_other (policies s p0))
     else None)"

text \<open>
  \<^verbatim>\<open>store_scaling_governor(policy, buf, count)\<close> for the policy at address \<open>p\<close>.  The
  tree is built for a 32-bit ARM target: \<^verbatim>\<open>size_t\<close> is \<^verbatim>\<open>unsigned int\<close> and
  \<^verbatim>\<open>ssize_t\<close> is \<^verbatim>\<open>int\<close>.  The local \<^verbatim>\<open>ret\<close> is an \<^verbatim>\<open>unsigned int\<close>;
  \<^verbatim>\<open>return ret\<close> and \<^verbatim>\<open>return count\<close> convert a 32-bit unsigned value to
  \<^verbatim>\<open>ssize_t\<close>, so a \<open>count\<close> of \<open>2 ^ 31\<close> or more comes back negative.
\<close>

definition store_scaling_governor ::
  "env \<Rightarrow> nat \<Rightarrow> string \<Rightarrow> u32 \<Rightarrow> kstate \<Rightarrow> (int \<times> kstate) option" where
  "store_scaling_governor e p buf count s =
    (case cpufreq_get_policy e s (cpu (policies s p)) of
       (ret, None) \<Rightarrow> Some (sint (word_of_int ret :: u32), s)
     | (ret, Some new_policy) \<Rightarrow>
        (case sscanf_s15 buf of
           None \<Rightarrow> Some (- EINVAL, s)
         | Some str_governor \<Rightarrow>
            let (err, new_policy1, s1) = cpufreq_parse_governor e str_governor new_policy s
            in if err \<noteq> 0 then Some (- EINVAL, s1)
               else
                 (case uu_cpufreq_set_policy e (uni_lookup e p s1) (policies s1 p) new_policy1 of
                    None \<Rightarrow> None
                  | Some (ret1, data, _, t) \<Rightarrow>
                     let ret = (word_of_int ret1 :: u32);
                         data1 = (if max_pol data > 2803200 then data\<lparr>max_pol := 2803200\<rparr>
                                  else data);
                         data2 = data1\<lparr>user_policy :=
                                   (user_policy data1)\<lparr>policy_real := policy_pol data1,
                                                        governor_real := governor data1\<rparr>\<rparr>
                     in Some (if ret \<noteq> 0 then sint ret else sint count,
                              s1\<lparr>trace := trace s1 @ t @ [SysfsNotify ''scaling_governor''],
                                 policies := (policies s1)(p := data2)\<rparr>))))"

subsection \<open>Adding a CPU\<close>

text \<open>The memory \<^verbatim>\<open>kzalloc\<close> hands out: every field zero.\<close>

definition zero_policy :: cpufreq_policy where
  "zero_policy =
    \<lparr>cpus = [], related_cpus = [], cpu = 0,
     cpuinfo = \<lparr>max_freq = 0, min_freq = 0, transition_latency = 0\<rparr>,
     min_pol = 0, max_pol = 0, cur = 0, util = 0, policy_pol = 0, governor = None,
     user_policy = \<lparr>min_real = 0, max_real = 0, policy_real = 0, governor_real = None\<rparr>\<rparr>"

text \<open>
  \<^verbatim>\<open>if (cpufreq_driver->exit) cpufreq_driver->exit(policy)\<close> for the policy at
  address \<open>p\<close>.
\<close>

definition drv_exit_call :: "cpufreq_driver \<Rightarrow> nat \<Rightarrow> kstate \<Rightarrow> kstate" where
  "drv_exit_call drv p s = (if drv_exit drv then s\<lparr>trace := trace s @ [DrvExit p]\<rparr> else s)"

text \<open>\<^verbatim>\<open>__cpufreq_governor\<close> and \<^verbatim>\<open>__cpufreq_set_policy\<close> on a policy in memory.\<close>

definition governor_at :: "env \<Rightarrow> nat \<Rightarrow> gov_event \<Rightarrow> kstate \<Rightarrow> (int \<times> kstate) option" where
  "governor_at e p event s =
    (case uu_cpufreq_governor e (policies s p) event of
       None \<Rightarrow> None
     | Some (r, pol, t) \<Rightarrow>
         Some (r, s\<lparr>trace := trace s @ t, policies := (policies s)(p := pol)\<rparr>))"

definition set_policy_at :: "env \<Rightarrow> nat \<Rightarrow> cpufreq_policy \<Rightarrow> kstate \<Rightarrow> (int \<times> kstate) option" where
  "set_policy_at e p new_policy s =
    (case uu_cpufreq_set_policy e (uni_lookup e p s) (policies s p) new_policy of
       None \<Rightarrow> None
     | Some (r, data, _, t) \<Rightarrow>
         Some (r, s\<lparr>trace := trace s @ t, policies := (policies s)(p := data)\<rparr>))"

text \<open>
  The body of \<^verbatim>\<open>if (unlikely(managed_policy))\<close> in
  \<^verbatim>\<open>cpufreq_add_dev_policy\<close>: CPU \<open>c\<close> with the provisional policy at \<open>p\<close> joins the
  policy at \<open>mp\<close>.
\<close>

definition join_managed_policy ::
  "env \<Rightarrow> cpufreq_driver \<Rightarrow> nat \<Rightarrow> nat \<Rightarrow> nat \<Rightarrow> kstate \<Rightarrow> (int \<times> kstate) option" where
  "join_managed_policy e drv c p mp s =
    (case unlock_policy_rwsem_write c s of
       None \<Rightarrow> None
     | Some s1 \<Rightarrow>
        let s2 = s1\<lparr>cpufreq_policy_cpu :=
                      (cpufreq_policy_cpu s1)(c := int (cpu (policies s1 mp)))\<rparr>
        in (case lock_policy_rwsem_write c s2 of
              None \<Rightarrow> None
            | Some (r, s3) \<Rightarrow>
               if r < 0 then Some (- EBUSY, drv_exit_call drv p s3)
               else
                 (case governor_at e mp CPUFREQ_GOV_STOP s3 of
                    None \<Rightarrow> None
                  | Some (_, s4) \<Rightarrow>
                     let s5 = s4\<lparr>cpufreq_cpu_data := (cpufreq_cpu_data s4)(c := Some mp),
                                 policies := (policies s4)(mp := (policies s4 mp)
                                    \<lparr>cpus := filter (cpu_online s4) (cpus (policies s4 p))\<rparr>)\<rparr>
                     in (case governor_at e mp CPUFREQ_GOV_START s5 of
                           None \<Rightarrow> None
                         | Some (_, s6) \<Rightarrow>
                            (case governor_at e mp CPUFREQ_GOV_LIMITS s6 of
                               None \<Rightarrow> None
                             | Some (_, s7) \<Rightarrow>
                                 let ret = sysfs_create_link e c
                                 in Some (if ret = 0 then 1 else ret,
                                          drv_exit_call drv p s7))))))"

text \<open>The loop \<^verbatim>\<open>for_each_cpu(j, policy->cpus)\<close> of \<^verbatim>\<open>cpufreq_add_dev_policy\<close>.\<close>

fun add_dev_policy_loop ::
  "env \<Rightarrow> cpufreq_driver \<Rightarrow> nat \<Rightarrow> nat \<Rightarrow> nat list \<Rightarrow> kstate \<Rightarrow> (int \<times> kstate) option" where
  "add_dev_policy_loop e drv c p [] s = Some (0, s)"
| "add_dev_policy_loop e drv c p (j # js) s =
    (if c = j then add_dev_policy_loop e drv c p js s
     else case cpufreq_cpu_get e s j of
            None \<Rightarrow> add_dev_policy_loop e drv c p js s
          | Some mp \<Rightarrow> join_managed_policy e drv c p mp s)"

text \<open>
  \<^verbatim>\<open>cpufreq_add_dev_policy(cpu, policy, dev)\<close>: restore the governor and the limits
  saved for the CPU, then look for a policy that already manages one of the CPUs.
\<close>

definition cpufreq_add_dev_policy ::
  "env \<Rightarrow> cpufreq_driver \<Rightarrow> nat \<Rightarrow> nat \<Rightarrow> kstate \<Rightarrow> (int \<times> kstate) option" where
  "cpufreq_add_dev_policy e drv c p s =
    (let save = cpufreq_policy_save s c;
         pol = policies s p;
         pol1 = (case uu_find_governor s (gov save) of
                   Some g \<Rightarrow> pol\<lparr>governor := Some g\<rparr>
                 | None \<Rightarrow> pol);
         pol2 = (if min_save save \<noteq> 0
                 then pol1\<lparr>min_pol := min_save save,
                           user_policy := (user_policy pol1)\<lparr>min_real := min_save save\<rparr>\<rparr>
                 else pol1);
         pol3 = (if max_save save \<noteq> 0
                 then pol2\<lparr>max_pol := max_save save,
                           user_policy := (user_policy pol2)\<lparr>max_real := max_save save\<rparr>\<rparr>
                 else pol2);
         s1 = s\<lparr>policies := (policies s)(p := pol3)\<rparr>
     in add_dev_policy_loop e drv c p (cpus pol3) s1)"

text \<open>\<^verbatim>\<open>cpufreq_add_dev_symlink(cpu, policy)\<close>, over the CPUs of the policy.\<close>

fun cpufreq_add_dev_symlink :: "env \<Rightarrow> kstate \<Rightarrow> nat \<Rightarrow> nat list \<Rightarrow> int" where
  "cpufreq_add_dev_symlink e s c [] = 0"
| "cpufreq_add_dev_symlink e s c (j # js) =
    (if j = c then cpufreq_add_dev_symlink e s c js
     else if \<not> cpu_online s j then cpufreq_add_dev_symlink e s c js
     else if sysfs_create_link e j \<noteq> 0 then sysfs_create_link e j
     else cpufreq_add_dev_symlink e s c js)"

text \<open>The code of the first \<^verbatim>\<open>sysfs_create_file\<close> that fails, 0 when none does.\<close>

fun create_files :: "env \<Rightarrow> string list \<Rightarrow> int" where
  "create_files e [] = 0"
| "create_files e (a # as) =
    (if sysfs_create_file e a \<noteq> 0 then sysfs_create_file e a else create_files e as)"

text \<open>
  The loop of \<^verbatim>\<open>cpufreq_add_dev_interface\<close> that points every online CPU of the
  policy at it.
\<close>

fun bind_cpus :: "nat \<Rightarrow> nat list \<Rightarrow> kstate \<Rightarrow> kstate" where
  "bind_cpus p [] s = s"
| "bind_cpus p (j # js) s =
    bind_cpus p js
      (if cpu_online s j
       then s\<lparr>cpufreq_cpu_data := (cpufreq_cpu_data s)(j := Some p),
              cpufreq_policy_cpu := (cpufreq_policy_cpu s)(j := int (cpu (policies s p)))\<rparr>
       else s)"

text \<open>
  \<^verbatim>\<open>cpufreq_add_dev_interface(cpu, policy, dev)\<close>.  The label
  \<^verbatim>\<open>err_out_kobj_put\<close> drops the kobject and returns the code.
\<close>

definition cpufreq_add_dev_interface ::
  "env \<Rightarrow> cpufreq_driver \<Rightarrow> nat \<Rightarrow> nat \<Rightarrow> kstate \<Rightarrow> (int \<times> kstate) option" where
  "cpufreq_add_dev_interface e drv c p s =
    (if kobject_init_and_add e \<noteq> 0 then Some (kobject_init_and_add e, s)
     else
       let files = drv_attr drv
                   @ (if drv_get drv \<noteq> None then [''cpuinfo_cur_freq''] else [])
                   @ [''scaling_cur_freq'']
                   @ (if drv_bios_limit drv then [''bios_limit''] else [])
       in if create_files e files \<noteq> 0
          then Some (create_files e files, s\<lparr>trace := trace s @ [KobjectPut p]\<rparr>)
          else
            let s1 = bind_cpus p (cpus (policies s p)) s;
                ret = cpufreq_add_dev_symlink e s1 c (cpus (policies s1 p))
            in if ret \<noteq> 0 then Some (ret, s1\<lparr>trace := trace s1 @ [KobjectPut p]\<rparr>)
               else
                 let new_policy = policies s1 p;
                     s2 = s1\<lparr>policies := (policies s1)(p := new_policy\<lparr>governor := None\<rparr>)\<rparr>
                 in (case set_policy_at e p new_policy s2 of
                       None \<Rightarrow> None
                     | Some (ret1, s3) \<Rightarrow>
                        let pol = policies s3 p;
                            s4 = s3\<lparr>policies := (policies s3)(p := pol\<lparr>user_policy :=
                                     (user_policy pol)\<lparr>policy_real := policy_pol pol,
                                                       governor_real := governor pol\<rparr>\<rparr>)\<rparr>
                        in Some (ret1, if ret1 \<noteq> 0 then drv_exit_call drv p s4 else s4)))"

text \<open>
  The loop \<^verbatim>\<open>for_each_online_cpu(sibling)\<close> of \<^verbatim>\<open>cpufreq_add_dev\<close>: the
  governor of the first online CPU whose policy has one and names \<open>c\<close> among its related
  CPUs; \<open>None\<close> when there is none (\<^verbatim>\<open>found\<close> stays 0).
\<close>

fun sibling_governor :: "kstate \<Rightarrow> nat \<Rightarrow> nat list \<Rightarrow> cpufreq_governor option" where
  "sibling_governor s c [] = None"
| "sibling_governor s c (sibling # rest) =
    (case cpufreq_cpu_data s sibling of
       None \<Rightarrow> sibling_governor s c rest
     | Some cp \<Rightarrow>
        if governor (policies s cp) \<noteq> None \<and> c \<in> set (related_cpus (policies s cp))
        then governor (policies s cp)
        else sibling_governor s c rest)"

text \<open>The loop of the label \<^verbatim>\<open>err_out_unregister\<close>.\<close>

fun unbind_cpus :: "nat list \<Rightarrow> kstate \<Rightarrow> kstate" where
  "unbind_cpus [] s = s"
| "unbind_cpus (j # js) s =
    unbind_cpus js (s\<lparr>cpufreq_cpu_data := (cpufreq_cpu_data s)(j := None)\<rparr>)"

text \<open>
  The labels \<^verbatim>\<open>err_unlock_policy\<close> to \<^verbatim>\<open>module_out\<close> of
  \<^verbatim>\<open>cpufreq_add_dev\<close>: release the semaphore, free the policy, return \<open>ret\<close>.
\<close>

definition err_unlock_policy :: "nat \<Rightarrow> int \<Rightarrow> kstate \<Rightarrow> (int \<times> kstate) option" where
  "err_unlock_policy c ret s =
    (case unlock_policy_rwsem_write c s of
       None \<Rightarrow> None
     | Some s1 \<Rightarrow> Some (ret, s1))"

text \<open>\<^verbatim>\<open>cpufreq_add_dev(dev, sif)\<close> for the device of CPU \<open>c\<close>.\<close>

definition cpufreq_add_dev :: "env \<Rightarrow> nat \<Rightarrow> kstate \<Rightarrow> (int \<times> kstate) option" where
  "cpufreq_add_dev e c s =
    (if \<not> cpu_online s c then Some (0, s)
     else if cpufreq_cpu_get e s c \<noteq> None then Some (0, s)
     else
       (case cpufreq_driver e of
          None \<Rightarrow> None
        | Some drv \<Rightarrow>
           if \<not> try_module_get_drv e then Some (- EINVAL, s)
           else
             (case kzalloc e of
                None \<Rightarrow> Some (- ENOMEM, s)
              | Some p \<Rightarrow>
                 if \<not> alloc_cpumask_var e \<or> \<not> zalloc_cpumask_var e then Some (- ENOMEM, s)
                 else
                   let s1 = s\<lparr>cpufreq_policy_cpu := (cpufreq_policy_cpu s)(c := int c),
                              policies := (policies s)(p := zero_policy\<lparr>cpu := c, cpus := [c]\<rparr>)\<rparr>
                   in (case lock_policy_rwsem_write c s1 of
                         None \<Rightarrow> None
                       | Some (_, s2) \<Rightarrow>
                          let gv = (case sibling_governor s2 c (cpu_online_mask s2) of
                                      Some g \<Rightarrow> Some g
                                    | None \<Rightarrow> cpufreq_default_governor e);
                              (ret, pol2) = drv_init drv ((policies s2 p)\<lparr>governor := gv\<rparr>);
                              s3 = s2\<lparr>trace := trace s2 @ [DrvInit p],
                                      policies := (policies s2)(p := pol2)\<rparr>
                          in if ret \<noteq> 0 then err_unlock_policy c ret s3
                             else
                               let pol3 = pol2\<lparr>cpus := filter (cpu_online s3) (cpus pol2),
                                               user_policy := (user_policy pol2)
                                                 \<lparr>min_real := min_pol pol2, max_real := max_pol pol2\<rparr>,
                                               util := 0\<rparr>;
                                   pol4 = policy_notifier e CPUFREQ_START pol3;
                                   s4 = s3\<lparr>trace := trace s3 @ [PolicyNotify CPUFREQ_START],
                                           policies := (policies s3)(p := pol4)\<rparr>
                               in (case cpufreq_add_dev_policy e drv c p s4 of
                                     None \<Rightarrow> None
                                   | Some (ret1, s5) \<Rightarrow>
                                      if ret1 \<noteq> 0
                                      then err_unlock_policy c (if ret1 > 0 then 0 else ret1) s5
                                      else
                                        (case cpufreq_add_dev_interface e drv c p s5 of
                                           None \<Rightarrow> None
                                         | Some (ret2, s6) \<Rightarrow>
                                            if ret2 \<noteq> 0
                                            then err_unlock_policy c ret2
                                                   ((unbind_cpus (cpus (policies s6 p)) s6)
                                                      \<lparr>trace := trace s6 @ [KobjectPut p]\<rparr>)
                                            else
                                              (case unlock_policy_rwsem_write c s6 of
                                                 None \<Rightarrow> None
                                               | Some s7 \<Rightarrow> Some (0, s7))))))))"

subsection \<open>Removing a CPU\<close>





subsection \<open>The hotplug notifier\<close>

datatype hotplug_action =
    CPU_ONLINE | CPU_ONLINE_FROZEN
  | CPU_DOWN_PREPARE | CPU_DOWN_PREPARE_FROZEN
  | CPU_DOWN_FAILED | CPU_DOWN_FAILED_FROZEN
  | CPU_OTHER


subsection \<open>Observing the governor\<close>




subsection \<open>Concrete inputs\<close>

definition gov_ondemand :: cpufreq_governor where
  "gov_ondemand = \<lparr>name = ''ondemand'', max_transition_latency = 10000000\<rparr>"

definition gov_powersave :: cpufreq_governor where
  "gov_powersave = \<lparr>name = ''powersave'', max_transition_latency = 0\<rparr>"

definition gov_performance :: cpufreq_governor where
  "gov_performance = \<lparr>name = ''performance'', max_transition_latency = 0\<rparr>"

text \<open>
  A driver with \<^verbatim>\<open>target\<close>, \<^verbatim>\<open>get\<close> and \<^verbatim>\<open>exit\<close>, no
  \<^verbatim>\<open>setpolicy\<close>; \<^verbatim>\<open>init\<close> sets the hardware limits and \<^verbatim>\<open>verify\<close>
  accepts everything.
\<close>

definition ex_drv :: cpufreq_driver where
  "ex_drv =
    \<lparr>drv_flags = 0,
     drv_init = (\<lambda>p. (0, p\<lparr>cpuinfo := \<lparr>max_freq = 2457600, min_freq = 300000,
                                         transition_latency = 100000\<rparr>,
                            min_pol := 300000, max_pol := 2457600, cur := 300000\<rparr>)),
     drv_verify = (\<lambda>p. (0, p)),
     drv_setpolicy = None,
     drv_target = True,
     drv_get = Some (\<lambda>c. 1200000),
     drv_exit = True,
     drv_bios_limit = False,
     drv_attr = []\<rparr>"

text \<open>
  An environment in which everything succeeds and no quality-of-service request is
  pending (floor 0, ceiling \<^verbatim>\<open>UINT_MAX\<close>).
\<close>

definition ex_env :: env where
  "ex_env =
    \<lparr>cpufreq_driver = Some ex_drv,
     pm_qos_cpu_freq_min = 0,
     pm_qos_cpu_freq_max = 4294967295,
     policy_notifier = (\<lambda>ev p. p),
     governor_fn = (\<lambda>g p ev. 0),
     try_module_get_gov = (\<lambda>g. True),
     cpufreq_gov_performance = Some gov_performance,
     config_uni_cpu_policy_limit = False,
     nr_cpu_ids = 4,
     try_module_get_drv = True,
     request_module = (\<lambda>n. (- 2, None)),
     get_max_lock = (\<lambda>c. 0),
     cpufreq_default_governor = Some gov_ondemand,
     kzalloc = Some 7,
     alloc_cpumask_var = True,
     zalloc_cpumask_var = True,
     kobject_init_and_add = 0,
     sysfs_create_file = (\<lambda>a. 0),
     sysfs_create_link = (\<lambda>c. 0)\<rparr>"

text \<open>A quality-of-service floor of 1000000 kHz.\<close>

definition ex_env_floor :: env where
  "ex_env_floor = ex_env\<lparr>pm_qos_cpu_freq_min := 1000000\<rparr>"

text \<open>Every governor START fails.\<close>

definition ex_env_start_fails :: env where
  "ex_env_start_fails =
    ex_env\<lparr>governor_fn := (\<lambda>g p ev. if ev = CPUFREQ_GOV_START then - 22 else 0)\<rparr>"

text \<open>Only the START of powersave fails.\<close>

definition ex_env_powersave_fails :: env where
  "ex_env_powersave_fails =
    ex_env\<lparr>governor_fn :=
      (\<lambda>g p ev. if ev = CPUFREQ_GOV_START \<and> name g = ''powersave'' then - 22 else 0)\<rparr>"

text \<open>\<^verbatim>\<open>kobject_init_and_add\<close> fails with \<^verbatim>\<open>-ENOMEM\<close>.\<close>

definition ex_env_kobject_fails :: env where
  "ex_env_kobject_fails = ex_env\<lparr>kobject_init_and_add := - 12\<rparr>"

text \<open>
  A live policy of CPU 0 and 1, owned by CPU 0, running ondemand at 1000000 kHz, with the
  user's limits 800000 and 1600000.
\<close>

definition ex_data :: cpufreq_policy where
  "ex_data =
    \<lparr>cpus = [0, 1], related_cpus = [0, 1], cpu = 0,
     cpuinfo = \<lparr>max_freq = 2457600, min_freq = 300000, transition_latency = 100000\<rparr>,
     min_pol = 800000, max_pol = 1600000, cur = 1000000, util = 0, policy_pol = 0,
     governor = Some gov_ondemand,
     user_policy = \<lparr>min_real = 800000, max_real = 1600000, policy_real = 0,
                    governor_real = Some gov_ondemand\<rparr>\<rparr>"

text \<open>The policy of CPU 2 alone: powersave, the user's limits 900000 and 1400000.\<close>

definition ex_data2 :: cpufreq_policy where
  "ex_data2 =
    \<lparr>cpus = [2], related_cpus = [2], cpu = 2,
     cpuinfo = \<lparr>max_freq = 2457600, min_freq = 300000, transition_latency = 100000\<rparr>,
     min_pol = 900000, max_pol = 1400000, cur = 900000, util = 0, policy_pol = 0,
     governor = Some gov_powersave,
     user_policy = \<lparr>min_real = 900000, max_real = 1400000, policy_real = 0,
                    governor_real = Some gov_powersave\<rparr>\<rparr>"

text \<open>
  A state with CPUs 0 to 3 online: CPU 0 and 1 share the policy at address 1, CPU 2 has the
  policy at address 2, CPU 3 has none; the semaphores are free.
\<close>

definition ex_state :: kstate where
  "ex_state =
    \<lparr>cpufreq_cpu_data = (\<lambda>c. if c = 0 \<or> c = 1 then Some 1 else if c = 2 then Some 2 else None),
     policies = (\<lambda>p. if p = 1 then ex_data else if p = 2 then ex_data2 else zero_policy),
     cpufreq_policy_cpu = (\<lambda>c. if c = 0 \<or> c = 1 then 0 else if c = 2 then 2 else - 1),
     cpufreq_policy_save = (\<lambda>c. \<lparr>gov = [], max_save = 0, min_save = 0\<rparr>),
     cpu_policy_rwsem = (\<lambda>c. \<lparr>readers = 0, writer = False\<rparr>),
     cpu_online_mask = [0, 1, 2, 3],
     cpufreq_governor_list = [gov_ondemand, gov_powersave, gov_performance],
     trace = []\<rparr>"

text \<open>The driver's \<^verbatim>\<open>verify\<close> rejects every request.\<close>

definition ex_drv_rejects :: cpufreq_driver where
  "ex_drv_rejects = ex_drv\<lparr>drv_verify := (\<lambda>p. (- 22, p))\<rparr>"

definition ex_env_verify_fails :: env where
  "ex_env_verify_fails = ex_env\<lparr>cpufreq_driver := Some ex_drv_rejects\<rparr>"

text \<open>The policy of CPU 0 and 1 on hardware too slow for ondemand.\<close>

definition ex_data_slow :: cpufreq_policy where
  "ex_data_slow =
    ex_data\<lparr>cpuinfo := \<lparr>max_freq = 2457600, min_freq = 300000, transition_latency = 20000000\<rparr>\<rparr>"

text \<open>The environment in which everything succeeds, built with \<^verbatim>\<open>CONFIG_UNI_CPU_POLICY_LIMIT\<close>.\<close>

definition ex_env_uni :: env where
  "ex_env_uni = ex_env\<lparr>config_uni_cpu_policy_limit := True\<rparr>"

text \<open>The policy at address \<open>p\<close>.\<close>

definition policy_of :: "nat \<Rightarrow> kstate \<Rightarrow> cpufreq_policy" where
  "policy_of p s = policies s p"


text \<open>The state above with the current frequency of the policy of CPU 2 unknown (0).\<close>

definition ex_state_unknown_cur :: kstate where
  "ex_state_unknown_cur =
    ex_state\<lparr>policies := (policies ex_state)(2 := ex_data2\<lparr>cur := 0\<rparr>)\<rparr>"

text \<open>
  The state above on hardware that reaches 2880000 kHz, the policy of CPU 0 and 1 allowing
  all of it.
\<close>

definition ex_data_fast :: cpufreq_policy where
  "ex_data_fast =
    ex_data\<lparr>cpuinfo := \<lparr>max_freq = 2880000, min_freq = 300000, transition_latency = 100000\<rparr>,
            max_pol := 2880000,
            user_policy := \<lparr>min_real = 800000, max_real = 2880000, policy_real = 0,
                            governor_real = Some gov_ondemand\<rparr>\<rparr>"

definition ex_state_fast :: kstate where
  "ex_state_fast = ex_state\<lparr>policies := (policies ex_state)(1 := ex_data_fast)\<rparr>"

section \<open>Properties\<close>

subsection \<open>Auxiliary facts\<close>

lemmas ex_defs = ex_env_def ex_env_floor_def ex_env_start_fails_def ex_env_powersave_fails_def
  ex_env_kobject_fails_def ex_env_verify_fails_def ex_drv_def ex_drv_rejects_def
  ex_data_def ex_data2_def gov_ondemand_def gov_powersave_def gov_performance_def
  ex_state_def ex_state_unknown_cur_def ex_data_fast_def ex_state_fast_def ex_data_slow_def
  ex_env_uni_def

lemmas set_policy_defs = uu_cpufreq_set_policy_def qos_clamped_def commit_limits_def
  set_policy_governor_def switch_governor_def uu_cpufreq_governor_def Let_def EINVAL_def



text \<open>The governor call changes no field of the policy but the governor.\<close>

lemma governor_call_fields:
  assumes "uu_cpufreq_governor e policy event = Some (r, policy', t)"
  shows "policy' = policy\<lparr>governor := governor policy'\<rparr>"
  using assms
  by (auto simp: uu_cpufreq_governor_def Let_def split: option.splits if_splits)

lemma governor_call_limits:
  assumes "uu_cpufreq_governor e policy event = Some (r, policy', t)"
  shows "min_pol policy' = min_pol policy \<and> max_pol policy' = max_pol policy \<and>
         user_policy policy' = user_policy policy \<and> cpuinfo policy' = cpuinfo policy"
proof -
  have "policy' = policy\<lparr>governor := governor policy'\<rparr>"
    using assms by (rule governor_call_fields)
  then have "min_pol policy' = min_pol (policy\<lparr>governor := governor policy'\<rparr>)"
    "max_pol policy' = max_pol (policy\<lparr>governor := governor policy'\<rparr>)"
    "user_policy policy' = user_policy (policy\<lparr>governor := governor policy'\<rparr>)"
    "cpuinfo policy' = cpuinfo (policy\<lparr>governor := governor policy'\<rparr>)"
    by simp_all
  then show ?thesis by simp
qed

text \<open>When both checks pass the call is the governor half applied to the committed policy.\<close>

lemma set_policy_governor_stage:
  assumes drv: "cpufreq_driver e = Some drv" "drv_setpolicy drv = None"
    and ver: "verified e drv data policy"
    and com: "commit_limits uni data (candidate e drv data policy) = Some data1"
  shows "uu_cpufreq_set_policy e uni data policy =
     (case set_policy_governor e uni data1 (candidate e drv data policy) of
        None \<Rightarrow> None
      | Some (r, data2, t4) \<Rightarrow>
          Some (r, data2,
                (candidate e drv data policy)\<lparr>min_pol := min_pol policy, max_pol := max_pol policy\<rparr>,
                [DrvVerify, PolicyNotify CPUFREQ_ADJUST, PolicyNotify CPUFREQ_INCOMPATIBLE,
                 DrvVerify, PolicyNotify CPUFREQ_NOTIFY] @ t4))"
  using drv ver com unfolding candidate_def
  by (simp add: uu_cpufreq_set_policy_def verified_def Let_def case_prod_beta)

lemma commit_limits_fields:
  assumes "commit_limits uni data cand = Some data1"
  shows "governor data1 = governor data \<and> cpuinfo data1 = cpuinfo data
         \<and> policy_pol data1 = policy_pol data \<and> user_policy data1 = user_policy data"
  using assms
  by (auto simp: commit_limits_def split: option.splits if_splits cpu0_policy.splits)






text \<open>The governor half leaves the committed limits alone.\<close>

lemma set_policy_governor_limits:
  assumes "set_policy_governor e uni data policy = Some (r, data', t)"
  shows "min_pol data' = min_pol data \<and> max_pol data' = max_pol data"
  using assms
  apply (simp add: set_policy_governor_def Let_def split: if_splits option.splits prod.splits)
  apply (auto dest!: governor_call_limits)
  done

lemma set_policy_committed:
  assumes res: "uu_cpufreq_set_policy e uni data policy = Some (r, data', policy', t)"
    and drv: "cpufreq_driver e = Some drv"
    and ver: "verified e drv data policy"
  shows "\<exists>data1. commit_limits uni data (candidate e drv data policy) = Some data1 \<and>
           min_pol data' = min_pol data1 \<and> max_pol data' = max_pol data1"
proof (cases "commit_limits uni data (candidate e drv data policy)")
  case None
  then have "uu_cpufreq_set_policy e uni data policy = None"
    using drv ver unfolding candidate_def
    by (simp add: uu_cpufreq_set_policy_def verified_def Let_def case_prod_beta)
  with res show ?thesis by simp
next
  case (Some data1)
  show ?thesis
  proof (cases "drv_setpolicy drv")
    case None
    from res obtain t4 where
      "set_policy_governor e uni data1 (candidate e drv data policy) = Some (r, data', t4)"
      unfolding set_policy_governor_stage[OF drv None ver Some]
      by (auto split: option.splits)
    from set_policy_governor_limits[OF this] Some show ?thesis by simp
  next
    case (Some sp)
    have "data' = data1\<lparr>policy_pol := policy_pol (candidate e drv data policy)\<rparr>"
      using res drv ver Some \<open>commit_limits uni data (candidate e drv data policy) = Some data1\<close>
      unfolding candidate_def
      by (simp add: uu_cpufreq_set_policy_def verified_def Let_def case_prod_beta)
    with \<open>commit_limits uni data (candidate e drv data policy) = Some data1\<close>
    show ?thesis by simp
  qed
qed

text \<open>What the commit writes, by the build and the CPU the request names.\<close>

lemma commit_limits_result:
  assumes "commit_limits uni data cand = Some data1"
  shows "(uni = None \<or> cpu cand = 0 \<longrightarrow>
            min_pol data1 = min_pol cand \<and> max_pol data1 = max_pol cand) \<and>
         (\<forall>c0. uni = Some (Cpu0_other c0) \<and> cpu cand \<noteq> 0 \<longrightarrow>
            min_pol data1 = min_pol c0 \<and> max_pol data1 = max_pol c0) \<and>
         (uni = Some Cpu0_same \<and> cpu cand \<noteq> 0 \<longrightarrow>
            min_pol data1 = min_pol data \<and> max_pol data1 = max_pol data)"
  using assms
  by (auto simp: commit_limits_def split: option.splits if_splits cpu0_policy.splits)

lemma candidate_identity:
  assumes "\<And>p. snd (drv_verify drv p) = p" "\<And>ev p. policy_notifier e ev p = p"
  shows "candidate e drv data policy = qos_clamped e data policy"
  by (simp add: candidate_def assms)

text \<open>Releasing a semaphore just taken gives back the semaphore as it was.\<close>

lemma up_down: "down mode sem = Some sem' \<Longrightarrow> up mode sem' = sem"
  by (cases sem; cases mode) (auto simp: down_def up_def split: if_splits)

lemma rwsem_upd_same: "s\<lparr>cpu_policy_rwsem := (cpu_policy_rwsem s)(n := cpu_policy_rwsem s n)\<rparr> = s"
  by (cases s) simp

lemmas transition_defs = uu_cpufreq_get_def cpufreq_out_of_sync_def cpufreq_notify_transition_def
  Let_def CPUFREQ_CONST_LOOPS_def policy_of_def

text \<open>What a governor call, the semaphore and a policy change leave alone.\<close>

lemma governor_call_frame:
  assumes "uu_cpufreq_governor e policy event = Some (r, policy', t)"
  shows "cpus policy' = cpus policy \<and> cpu policy' = cpu policy \<and>
         related_cpus policy' = related_cpus policy \<and> policy_pol policy' = policy_pol policy"
proof -
  have "policy' = policy\<lparr>governor := governor policy'\<rparr>"
    using assms by (rule governor_call_fields)
  then have "cpus policy' = cpus (policy\<lparr>governor := governor policy'\<rparr>)"
    "cpu policy' = cpu (policy\<lparr>governor := governor policy'\<rparr>)"
    "related_cpus policy' = related_cpus (policy\<lparr>governor := governor policy'\<rparr>)"
    "policy_pol policy' = policy_pol (policy\<lparr>governor := governor policy'\<rparr>)"
    by simp_all
  then show ?thesis by simp
qed


lemma unlock_frame:
  assumes "unlock_policy_rwsem_write c s = Some s'"
  shows "\<exists>f. s' = s\<lparr>cpu_policy_rwsem := f\<rparr>"
  using assms
  by (auto simp: unlock_policy_rwsem_write_def unlock_policy_rwsem_def Let_def split: if_splits)

lemma lock_frame:
  assumes "lock_policy_rwsem_write c s = Some (r, s')"
  shows "\<exists>f. s' = s\<lparr>cpu_policy_rwsem := f\<rparr>"
  using assms
  by (auto simp: lock_policy_rwsem_write_def lock_policy_rwsem_def Let_def
           split: if_splits option.splits)

lemma unlock_returns:
  assumes "cpufreq_policy_cpu s c \<noteq> - 1"
  shows "unlock_policy_rwsem_write c s =
           Some (s\<lparr>cpu_policy_rwsem := (cpu_policy_rwsem s)(nat (cpufreq_policy_cpu s c) :=
                     (cpu_policy_rwsem s (nat (cpufreq_policy_cpu s c)))\<lparr>writer := False\<rparr>)\<rparr>)"
  using assms
  by (simp add: unlock_policy_rwsem_write_def unlock_policy_rwsem_def Let_def up_def)

lemma lock_returns:
  assumes "cpufreq_policy_cpu s c \<noteq> - 1"
    and "cpu_policy_rwsem s (nat (cpufreq_policy_cpu s c)) = \<lparr>readers = 0, writer = False\<rparr>"
  shows "lock_policy_rwsem_write c s =
           Some (if cpu_online s c then 0 else - 1,
                 s\<lparr>cpu_policy_rwsem := (cpu_policy_rwsem s)(nat (cpufreq_policy_cpu s c) :=
                       \<lparr>readers = 0, writer = cpu_online s c\<rparr>)\<rparr>)"
  using assms
  by (simp add: lock_policy_rwsem_write_def lock_policy_rwsem_def Let_def down_def up_def
        cpu_online_def)

lemma governor_call_keeps:
  assumes "uu_cpufreq_governor e policy event = Some (r, policy', t)"
  shows "cpus policy' = cpus policy \<and> cpu policy' = cpu policy \<and>
         user_policy policy' = user_policy policy"
  using governor_call_limits[OF assms] governor_call_frame[OF assms] by simp

lemma set_policy_governor_frame:
  assumes "set_policy_governor e uni data policy = Some (r, data', t)"
  shows "cpus data' = cpus data \<and> cpu data' = cpu data \<and> user_policy data' = user_policy data"
  using assms
  apply (simp add: set_policy_governor_def Let_def split: if_splits option.splits prod.splits)
  apply (auto dest!: governor_call_keeps)
  done

lemma commit_limits_frame:
  assumes "commit_limits uni data cand = Some data1"
  shows "cpus data1 = cpus data \<and> cpu data1 = cpu data"
  using assms
  by (auto simp: commit_limits_def split: option.splits if_splits cpu0_policy.splits)

lemma set_policy_not_verified:
  assumes "cpufreq_driver e = Some drv" "\<not> verified e drv data policy"
  shows "\<exists>r policy' t. uu_cpufreq_set_policy e uni data policy = Some (r, data, policy', t) \<and> r \<noteq> 0"
  using assms
  by (auto simp: uu_cpufreq_set_policy_def verified_def Let_def EINVAL_def case_prod_beta)

lemma set_policy_frame:
  assumes res: "uu_cpufreq_set_policy e uni data policy = Some (r, data', policy', t)"
    and drv: "cpufreq_driver e = Some drv" "drv_setpolicy drv = None"
  shows "cpus data' = cpus data \<and> cpu data' = cpu data \<and> user_policy data' = user_policy data"
proof (cases "verified e drv data policy")
  case False
  from set_policy_not_verified[OF drv(1) False, of uni] res show ?thesis by auto
next
  case True
  show ?thesis
  proof (cases "commit_limits uni data (candidate e drv data policy)")
    case None
    then have "uu_cpufreq_set_policy e uni data policy = None"
      using drv True unfolding candidate_def
      by (simp add: uu_cpufreq_set_policy_def verified_def Let_def case_prod_beta)
    with res show ?thesis by simp
  next
    case (Some data1)
    from res obtain t4 where
      g: "set_policy_governor e uni data1 (candidate e drv data policy) = Some (r, data', t4)"
      unfolding set_policy_governor_stage[OF drv True Some]
      by (auto split: option.splits)
    from set_policy_governor_frame[OF g] commit_limits_frame[OF Some] commit_limits_fields[OF Some]
    show ?thesis by simp
  qed
qed











lemma find_governor_cong:
  "cpufreq_governor_list s' = cpufreq_governor_list s \<Longrightarrow>
   uu_find_governor s' nm = uu_find_governor s nm"
  by (simp add: uu_find_governor_def)




lemma unbind_cpus_frame:
  "trace (unbind_cpus js s) = trace s \<and>
   cpufreq_policy_cpu (unbind_cpus js s) = cpufreq_policy_cpu s \<and>
   cpu_policy_rwsem (unbind_cpus js s) = cpu_policy_rwsem s"
  by (induction js arbitrary: s) simp_all

lemma add_dev_policy_no_sibling:
  assumes "cpus (policies s p) = [c]"
  shows "\<exists>s'. cpufreq_add_dev_policy e drv c p s = Some (0, s') \<and> trace s' = trace s \<and>
           cpufreq_policy_cpu s' = cpufreq_policy_cpu s \<and>
           cpu_policy_rwsem s' = cpu_policy_rwsem s \<and> cpus (policies s' p) = [c]"
  using assms by (simp add: cpufreq_add_dev_policy_def Let_def split: option.splits)

text \<open>The attribute write before it reaches the inner call.\<close>

lemma parse_governor_policies:
  "policies (snd (snd (cpufreq_parse_governor e str_governor new_policy s))) = policies s"
  by (simp add: cpufreq_parse_governor_def Let_def case_prod_beta split: option.splits)

lemma get_policy_code:
  "snd (cpufreq_get_policy e s c) = None \<Longrightarrow> fst (cpufreq_get_policy e s c) = - EINVAL"
  by (simp add: cpufreq_get_policy_def split: option.splits)

lemmas add_defs = cpufreq_add_dev_def cpufreq_cpu_get_def uu_cpufreq_cpu_get_def
  lock_policy_rwsem_write_def lock_policy_rwsem_def unlock_policy_rwsem_write_def
  unlock_policy_rwsem_def down_def up_def cpu_online_def zero_policy_def err_unlock_policy_def
  cpufreq_add_dev_policy_def uu_find_governor_def strnicmp_eq_def tolower_def
  CPUFREQ_NAME_LEN_def cpufreq_add_dev_interface_def set_policy_at_def uni_lookup_def
  drv_exit_call_def ENOMEM_def EBUSY_def policy_of_def


subsection \<open>Setting a policy: the bounds check\<close>



subsection \<open>Setting a policy: what is restored on exit\<close>

text \<open>
  Claim C1, as the source has it.  On every return of \<^verbatim>\<open>__cpufreq_set_policy\<close> the
  request has the limits the caller passed in.  The live policy, which
  \<^verbatim>\<open>scaling_min_freq\<close> and \<^verbatim>\<open>scaling_max_freq\<close> print, holds once both
  \<^verbatim>\<open>verify\<close> calls have succeeded: without \<^verbatim>\<open>CONFIG_UNI_CPU_POLICY_LIMIT\<close>, or
  for a request that names CPU 0, the limits of the verified candidate; with the option,
  for a request that names another CPU, the limits of the policy of CPU 0 (its own limits
  of before the call when it is itself the policy of CPU 0).  When \<^verbatim>\<open>verify\<close> and the
  observers leave the candidate alone the limits of the candidate are the requested limits
  clamped to the quality-of-service limits, not the requested limits themselves.
\<close>

theorem set_policy_restores_request:
  assumes "uu_cpufreq_set_policy e uni data policy = Some (r, data', policy', t)"
  shows "min_pol policy' = min_pol policy \<and> max_pol policy' = max_pol policy \<and>
         (cpufreq_driver e = Some drv \<and> verified e drv data policy \<longrightarrow>
            (uni = None \<or> cpu (candidate e drv data policy) = 0 \<longrightarrow>
               show_scaling_min_freq data' = min_pol (candidate e drv data policy) \<and>
               show_scaling_max_freq data' = max_pol (candidate e drv data policy)) \<and>
            (\<forall>c0. uni = Some (Cpu0_other c0) \<and> cpu (candidate e drv data policy) \<noteq> 0 \<longrightarrow>
               show_scaling_min_freq data' = min_pol c0 \<and>
               show_scaling_max_freq data' = max_pol c0) \<and>
            (uni = Some Cpu0_same \<and> cpu (candidate e drv data policy) \<noteq> 0 \<longrightarrow>
               show_scaling_min_freq data' = min_pol data \<and>
               show_scaling_max_freq data' = max_pol data)) \<and>
         (cpufreq_driver e = Some drv \<and> verified e drv data policy \<and>
          (\<forall>p. snd (drv_verify drv p) = p) \<and> (\<forall>ev p. policy_notifier e ev p = p) \<and>
          (uni = None \<or> cpu policy = 0) \<longrightarrow>
            show_scaling_min_freq data' =
              max (min_pol policy) (min (pm_qos_cpu_freq_min e) (max_real (user_policy data))) \<and>
            show_scaling_max_freq data' =
              min (max_pol policy) (max (pm_qos_cpu_freq_max e) (min_real (user_policy data))))"
proof -
  let ?cand = "candidate e drv data policy"
  have a: "min_pol policy' = min_pol policy \<and> max_pol policy' = max_pol policy"
    using assms
    by (auto simp: uu_cpufreq_set_policy_def Let_def split: if_splits option.splits prod.splits)
  have b: "(uni = None \<or> cpu ?cand = 0 \<longrightarrow>
               show_scaling_min_freq data' = min_pol ?cand \<and>
               show_scaling_max_freq data' = max_pol ?cand) \<and>
            (\<forall>c0. uni = Some (Cpu0_other c0) \<and> cpu ?cand \<noteq> 0 \<longrightarrow>
               show_scaling_min_freq data' = min_pol c0 \<and>
               show_scaling_max_freq data' = max_pol c0) \<and>
            (uni = Some Cpu0_same \<and> cpu ?cand \<noteq> 0 \<longrightarrow>
               show_scaling_min_freq data' = min_pol data \<and>
               show_scaling_max_freq data' = max_pol data)"
    if d: "cpufreq_driver e = Some drv" and v: "verified e drv data policy"
  proof -
    from set_policy_committed[OF assms d v] obtain data1 where
      com: "commit_limits uni data ?cand = Some data1"
      and m: "min_pol data' = min_pol data1" "max_pol data' = max_pol data1" by blast
    from commit_limits_result[OF com] m show ?thesis
      by (simp add: show_scaling_min_freq_def show_scaling_max_freq_def)
  qed
  have c: "show_scaling_min_freq data' =
              max (min_pol policy) (min (pm_qos_cpu_freq_min e) (max_real (user_policy data))) \<and>
            show_scaling_max_freq data' =
              min (max_pol policy) (max (pm_qos_cpu_freq_max e) (min_real (user_policy data)))"
    if d: "cpufreq_driver e = Some drv" and v: "verified e drv data policy"
      and i: "\<forall>p. snd (drv_verify drv p) = p" "\<forall>ev p. policy_notifier e ev p = p"
      and u: "uni = None \<or> cpu policy = 0"
  proof -
    have cand: "?cand = qos_clamped e data policy"
      using i by (simp add: candidate_identity)
    have "uni = None \<or> cpu ?cand = 0" using u by (simp add: cand qos_clamped_def Let_def)
    with b[OF d v] show ?thesis by (auto simp: cand qos_clamped_def Let_def)
  qed
  from a b c show ?thesis by blast
qed

text \<open>
  The claim as stated fails: with a quality-of-service floor of 1000000 kHz and the request
  800000 to 1600000, the call succeeds and \<^verbatim>\<open>scaling_min_freq\<close> reads 1000000.
\<close>

theorem set_policy_restores_request_counterexample:
  "map_option fst (uu_cpufreq_set_policy ex_env_floor None ex_data ex_data) = Some 0
   \<and> min_pol ex_data = 800000
   \<and> map_option (show_scaling_min_freq \<circ> fst \<circ> snd)
        (uu_cpufreq_set_policy ex_env_floor None ex_data ex_data) = Some 1000000"
  by (simp add: set_policy_defs ex_defs show_scaling_min_freq_def)

text \<open>
  The same call, and with \<^verbatim>\<open>CONFIG_UNI_CPU_POLICY_LIMIT\<close> the request 950000 to
  1300000 for the policy of CPU 2, which ends with the limits 800000 and 1600000 of the
  policy of CPU 0.
\<close>

theorem set_policy_restores_request_witness:
  "uu_cpufreq_set_policy ex_env_floor None ex_data ex_data =
     Some (0, ex_data\<lparr>min_pol := 1000000\<rparr>, ex_data,
           [DrvVerify, PolicyNotify CPUFREQ_ADJUST, PolicyNotify CPUFREQ_INCOMPATIBLE, DrvVerify,
            PolicyNotify CPUFREQ_NOTIFY, ModuleGet ''ondemand'',
            GovCall ''ondemand'' CPUFREQ_GOV_LIMITS 0, ModulePut ''ondemand''])
   \<and> verified ex_env_floor ex_drv ex_data ex_data
   \<and> min_pol ex_data = 800000 \<and> max_pol ex_data = 1600000
   \<and> show_scaling_min_freq (ex_data\<lparr>min_pol := 1000000\<rparr>) = 1000000
   \<and> show_scaling_max_freq (ex_data\<lparr>min_pol := 1000000\<rparr>) = 1600000
   \<and> cpu (ex_data2\<lparr>min_pol := 950000, max_pol := 1300000\<rparr>) = 2
   \<and> map_option fst
        (uu_cpufreq_set_policy ex_env (Some (Cpu0_other ex_data)) ex_data2
           (ex_data2\<lparr>min_pol := 950000, max_pol := 1300000\<rparr>)) = Some 0
   \<and> map_option (show_scaling_min_freq \<circ> fst \<circ> snd)
        (uu_cpufreq_set_policy ex_env (Some (Cpu0_other ex_data)) ex_data2
           (ex_data2\<lparr>min_pol := 950000, max_pol := 1300000\<rparr>)) = Some 800000
   \<and> map_option (show_scaling_max_freq \<circ> fst \<circ> snd)
        (uu_cpufreq_set_policy ex_env (Some (Cpu0_other ex_data)) ex_data2
           (ex_data2\<lparr>min_pol := 950000, max_pol := 1300000\<rparr>)) = Some 1600000"
proof -
  have h: "uu_cpufreq_set_policy ex_env_floor None ex_data ex_data =
     Some (0, ex_data\<lparr>min_pol := 1000000\<rparr>, ex_data,
           [DrvVerify, PolicyNotify CPUFREQ_ADJUST, PolicyNotify CPUFREQ_INCOMPATIBLE, DrvVerify,
            PolicyNotify CPUFREQ_NOTIFY, ModuleGet ''ondemand'',
            GovCall ''ondemand'' CPUFREQ_GOV_LIMITS 0, ModulePut ''ondemand''])"
    by (simp add: set_policy_defs ex_defs)
  have v: "verified ex_env_floor ex_drv ex_data ex_data"
    by (simp add: verified_def qos_clamped_def Let_def ex_defs)
  have d: "cpufreq_driver ex_env_floor = Some ex_drv" by (simp add: ex_defs)
  have i: "\<forall>p. snd (drv_verify ex_drv p) = p" "\<forall>ev p. policy_notifier ex_env_floor ev p = p"
    by (simp_all add: ex_defs)
  from set_policy_restores_request[OF h, of ex_drv] v d i
  have "show_scaling_min_freq (ex_data\<lparr>min_pol := 1000000\<rparr>) =
          max (min_pol ex_data) (min (pm_qos_cpu_freq_min ex_env_floor) (max_real (user_policy ex_data)))
        \<and> show_scaling_max_freq (ex_data\<lparr>min_pol := 1000000\<rparr>) =
          min (max_pol ex_data) (max (pm_qos_cpu_freq_max ex_env_floor) (min_real (user_policy ex_data)))"
    by blast
  then have one: "show_scaling_min_freq (ex_data\<lparr>min_pol := 1000000\<rparr>) = 1000000
        \<and> show_scaling_max_freq (ex_data\<lparr>min_pol := 1000000\<rparr>) = 1600000"
    by (simp add: ex_defs)
  let ?q = "ex_data2\<lparr>min_pol := 950000, max_pol := 1300000\<rparr>"
  obtain r data' policy' t where
    res: "uu_cpufreq_set_policy ex_env (Some (Cpu0_other ex_data)) ex_data2 ?q
            = Some (r, data', policy', t)" and r: "r = 0"
    by (simp add: set_policy_defs ex_defs)
  have v2: "verified ex_env ex_drv ex_data2 ?q"
    by (simp add: verified_def qos_clamped_def Let_def ex_defs)
  have d2: "cpufreq_driver ex_env = Some ex_drv" by (simp add: ex_defs)
  have c2: "cpu (candidate ex_env ex_drv ex_data2 ?q) \<noteq> 0"
    by (simp add: candidate_def qos_clamped_def Let_def ex_defs)
  from set_policy_restores_request[OF res, of ex_drv] v2 d2 c2
  have "show_scaling_min_freq data' = min_pol ex_data \<and> show_scaling_max_freq data' = max_pol ex_data"
    by blast
  then have two: "show_scaling_min_freq data' = 800000 \<and> show_scaling_max_freq data' = 1600000"
    by (simp add: ex_defs)
  have cq: "cpu ?q = 2" by (simp add: ex_defs)
  from h v one two res r cq show ?thesis by (simp add: ex_defs)
qed

subsection \<open>Setting a policy: a governor whose START fails\<close>




subsection \<open>Setting a policy: nothing is committed before both checks have passed\<close>

text \<open>
  Claim C10.  When the bounds check or either \<^verbatim>\<open>verify\<close> call fails, the call
  returns a nonzero code and the live policy is exactly as it was (its limits, its policy
  kind and its governor among the rest); only \<^verbatim>\<open>verify\<close> and the ADJUST and
  INCOMPATIBLE observers were called, no governor and no \<^verbatim>\<open>setpolicy\<close>.
\<close>

theorem set_policy_error_before_commit:
  assumes "cpufreq_driver e = Some drv" "\<not> verified e drv data policy"
  shows "\<exists>r policy' t. uu_cpufreq_set_policy e uni data policy = Some (r, data, policy', t) \<and> r \<noteq> 0
          \<and> set t \<subseteq> {DrvVerify, PolicyNotify CPUFREQ_ADJUST, PolicyNotify CPUFREQ_INCOMPATIBLE}"
  using assms
  by (auto simp: uu_cpufreq_set_policy_def verified_def Let_def EINVAL_def case_prod_beta)

theorem set_policy_error_before_commit_witness:
  "cpufreq_driver ex_env_verify_fails = Some ex_drv_rejects
   \<and> \<not> verified ex_env_verify_fails ex_drv_rejects ex_data ex_data
   \<and> (\<exists>r policy' t. uu_cpufreq_set_policy ex_env_verify_fails None ex_data ex_data
                       = Some (r, ex_data, policy', t) \<and> r \<noteq> 0
          \<and> set t \<subseteq> {DrvVerify, PolicyNotify CPUFREQ_ADJUST, PolicyNotify CPUFREQ_INCOMPATIBLE})"
proof -
  have h1: "cpufreq_driver ex_env_verify_fails = Some ex_drv_rejects" by (simp add: ex_defs)
  have h2: "\<not> verified ex_env_verify_fails ex_drv_rejects ex_data ex_data"
    by (simp add: verified_def qos_clamped_def Let_def ex_defs)
  from set_policy_error_before_commit[OF h1 h2, of None] h1 h2 show ?thesis by simp
qed

subsection \<open>The policy semaphore: the CPU is checked after the semaphore is taken\<close>

text \<open>
  Claim C8.  When \<^verbatim>\<open>lock_policy_rwsem_read\<close> or \<^verbatim>\<open>lock_policy_rwsem_write\<close>
  gets the semaphore of the CPU's domain, the call returns: with 0 and the semaphore held
  when the CPU is online, and with \<^verbatim>\<open>-1\<close> and the semaphore released again, the
  state as before the call, when the CPU is offline.
\<close>

theorem lock_policy_rwsem_revalidates:
  assumes "cpufreq_policy_cpu s c \<noteq> - 1"
    and "down mode (cpu_policy_rwsem s (nat (cpufreq_policy_cpu s c))) = Some sem"
  shows "lock_policy_rwsem mode c s =
           Some (if cpu_online s c
                 then (0, s\<lparr>cpu_policy_rwsem :=
                             (cpu_policy_rwsem s)(nat (cpufreq_policy_cpu s c) := sem)\<rparr>)
                 else (- 1, s))
         \<and> held mode (s\<lparr>cpu_policy_rwsem :=
                             (cpu_policy_rwsem s)(nat (cpufreq_policy_cpu s c) := sem)\<rparr>) c"
proof -
  have u: "up mode sem = cpu_policy_rwsem s (nat (cpufreq_policy_cpu s c))"
    using assms(2) by (rule up_down)
  have h: "held mode (s\<lparr>cpu_policy_rwsem :=
                             (cpu_policy_rwsem s)(nat (cpufreq_policy_cpu s c) := sem)\<rparr>) c"
    using assms(2) by (cases mode) (auto simp: held_def down_def split: if_splits)
  have "lock_policy_rwsem mode c s =
           Some (if cpu_online s c
                 then (0, s\<lparr>cpu_policy_rwsem :=
                             (cpu_policy_rwsem s)(nat (cpufreq_policy_cpu s c) := sem)\<rparr>)
                 else (- 1, s))"
    using assms by (simp add: lock_policy_rwsem_def Let_def cpu_online_def u rwsem_upd_same)
  with h show ?thesis by simp
qed

theorem lock_policy_rwsem_revalidates_witness:
  "cpufreq_policy_cpu ex_state 1 \<noteq> - 1
   \<and> down Write (cpu_policy_rwsem ex_state (nat (cpufreq_policy_cpu ex_state 1)))
        = Some \<lparr>readers = 0, writer = True\<rparr>
   \<and> lock_policy_rwsem Write 1 ex_state =
        Some (0, ex_state\<lparr>cpu_policy_rwsem :=
                    (cpu_policy_rwsem ex_state)(0 := \<lparr>readers = 0, writer = True\<rparr>)\<rparr>)
   \<and> lock_policy_rwsem Write 1 (ex_state\<lparr>cpu_online_mask := [0]\<rparr>) =
        Some (- 1, ex_state\<lparr>cpu_online_mask := [0]\<rparr>)"
proof -
  have a1: "cpufreq_policy_cpu ex_state 1 \<noteq> - 1" by (simp add: ex_defs)
  have a2: "down Write (cpu_policy_rwsem ex_state (nat (cpufreq_policy_cpu ex_state 1)))
        = Some \<lparr>readers = 0, writer = True\<rparr>" by (simp add: ex_defs down_def)
  have b1: "cpufreq_policy_cpu (ex_state\<lparr>cpu_online_mask := [0]\<rparr>) 1 \<noteq> - 1" by (simp add: ex_defs)
  have b2: "down Write (cpu_policy_rwsem (ex_state\<lparr>cpu_online_mask := [0]\<rparr>)
                 (nat (cpufreq_policy_cpu (ex_state\<lparr>cpu_online_mask := [0]\<rparr>) 1)))
        = Some \<lparr>readers = 0, writer = True\<rparr>" by (simp add: ex_defs down_def)
  have n: "nat (cpufreq_policy_cpu ex_state 1) = 0" by (simp add: ex_defs)
  have on: "cpu_online ex_state 1" "\<not> cpu_online (ex_state\<lparr>cpu_online_mask := [0]\<rparr>) 1"
    by (simp_all add: ex_defs cpu_online_def)
  from lock_policy_rwsem_revalidates[OF a1 a2] lock_policy_rwsem_revalidates[OF b1 b2] a1 a2 n on
  show ?thesis by simp
qed

subsection \<open>Transitions: the old frequency reported before a change\<close>

text \<open>
  Claim C7, as the source has it.  In a PRECHANGE notification (a driver is registered) the
  old frequency is corrected to the policy's current frequency before the observers are
  called exactly when the driver does not claim constant loop timing and the CPU named in
  \<open>freqs\<close> has a policy that it owns and whose current frequency is known (not 0) and
  differs from the one reported.  In every other case (a driver with constant loop timing,
  a CPU without a policy, a CPU that does not own its policy, a current frequency that is
  0 or agrees) the observers see the old frequency as reported.  \<open>freqs\<close> carries the
  driver's flags in both cases.
\<close>

theorem notify_prechange_corrects_old:
  assumes "cpufreq_driver e = Some drv"
  shows "cpufreq_notify_transition e freqs CPUFREQ_PRECHANGE s =
           (case cpufreq_cpu_data s (cpu_fr freqs) of
              Some p \<Rightarrow>
                if and (drv_flags drv) CPUFREQ_CONST_LOOPS = 0 \<and>
                   cpu (policies s p) = cpu_fr freqs \<and> cur (policies s p) \<noteq> 0 \<and>
                   cur (policies s p) \<noteq> old freqs
                then Some (freqs\<lparr>old := cur (policies s p), flags := drv_flags drv\<rparr>,
                       s\<lparr>trace := trace s @ [Transition CPUFREQ_PRECHANGE
                             (freqs\<lparr>old := cur (policies s p), flags := drv_flags drv\<rparr>)]\<rparr>)
                else Some (freqs\<lparr>flags := drv_flags drv\<rparr>,
                       s\<lparr>trace := trace s @ [Transition CPUFREQ_PRECHANGE
                             (freqs\<lparr>flags := drv_flags drv\<rparr>)]\<rparr>)
            | None \<Rightarrow>
                Some (freqs\<lparr>flags := drv_flags drv\<rparr>,
                      s\<lparr>trace := trace s @ [Transition CPUFREQ_PRECHANGE
                            (freqs\<lparr>flags := drv_flags drv\<rparr>)]\<rparr>))"
  using assms by (simp add: cpufreq_notify_transition_def Let_def split: option.splits)

text \<open>
  The claim as stated fails: a policy whose current frequency is 0 does not correct a
  reported 1000000, and the notification for CPU 1, which shares the policy owned by CPU 0
  (current frequency 1000000), passes the reported 1100000 on unchanged.
\<close>

theorem notify_prechange_corrects_old_counterexample:
  "cur (policy_of 2 ex_state_unknown_cur) = 0
   \<and> map_option (old \<circ> fst)
        (cpufreq_notify_transition ex_env \<lparr>cpu_fr = 2, old = 1000000, new = 1200000, flags = 0\<rparr>
           CPUFREQ_PRECHANGE ex_state_unknown_cur) = Some 1000000
   \<and> map_option (trace \<circ> snd)
        (cpufreq_notify_transition ex_env \<lparr>cpu_fr = 2, old = 1000000, new = 1200000, flags = 0\<rparr>
           CPUFREQ_PRECHANGE ex_state_unknown_cur) =
       Some [Transition CPUFREQ_PRECHANGE \<lparr>cpu_fr = 2, old = 1000000, new = 1200000, flags = 0\<rparr>]
   \<and> cpufreq_cpu_data ex_state 1 = Some 1 \<and> cur (policy_of 1 ex_state) = 1000000
   \<and> map_option (trace \<circ> snd)
        (cpufreq_notify_transition ex_env \<lparr>cpu_fr = 1, old = 1100000, new = 1200000, flags = 0\<rparr>
           CPUFREQ_PRECHANGE ex_state) =
       Some [Transition CPUFREQ_PRECHANGE \<lparr>cpu_fr = 1, old = 1100000, new = 1200000, flags = 0\<rparr>]"
  by (simp add: transition_defs ex_defs)

text \<open>
  CPU 0 owns its policy, which runs at 1000000: a reported 1100000 is corrected.  CPU 3 has
  no policy: the reported 1100000 is passed on.
\<close>

theorem notify_prechange_corrects_old_witness:
  "cpufreq_cpu_data ex_state 0 = Some 1 \<and> cur (policies ex_state 1) = 1000000
   \<and> cpufreq_notify_transition ex_env \<lparr>cpu_fr = 0, old = 1100000, new = 1200000, flags = 0\<rparr>
        CPUFREQ_PRECHANGE ex_state =
      Some (\<lparr>cpu_fr = 0, old = 1000000, new = 1200000, flags = 0\<rparr>,
            ex_state\<lparr>trace := [Transition CPUFREQ_PRECHANGE
                                  \<lparr>cpu_fr = 0, old = 1000000, new = 1200000, flags = 0\<rparr>]\<rparr>)
   \<and> cpufreq_cpu_data ex_state 3 = None
   \<and> cpufreq_notify_transition ex_env \<lparr>cpu_fr = 3, old = 1100000, new = 1200000, flags = 0\<rparr>
        CPUFREQ_PRECHANGE ex_state =
      Some (\<lparr>cpu_fr = 3, old = 1100000, new = 1200000, flags = 0\<rparr>,
            ex_state\<lparr>trace := [Transition CPUFREQ_PRECHANGE
                                  \<lparr>cpu_fr = 3, old = 1100000, new = 1200000, flags = 0\<rparr>]\<rparr>)"
proof -
  have h1: "cpufreq_driver ex_env = Some ex_drv" by (simp add: ex_defs)
  have o: "cpu (policies ex_state 1) = 0" "cur (policies ex_state 1) = 1000000"
    "trace ex_state = []" "drv_flags ex_drv = 0" "cpufreq_cpu_data ex_state 0 = Some 1"
    "cpufreq_cpu_data ex_state 3 = None" "and (drv_flags ex_drv) CPUFREQ_CONST_LOOPS = 0"
    by (simp_all add: ex_defs)
  from notify_prechange_corrects_old[OF h1, of "\<lparr>cpu_fr = 0, old = 1100000, new = 1200000, flags = 0\<rparr>" ex_state]
    notify_prechange_corrects_old[OF h1, of "\<lparr>cpu_fr = 3, old = 1100000, new = 1200000, flags = 0\<rparr>" ex_state]
    o
  show ?thesis by simp
qed

subsection \<open>Transitions: the hardware disagrees with the policy\<close>

text \<open>
  Claim C4, as the source has it.  When the driver's \<^verbatim>\<open>get\<close> returns a nonzero
  frequency that differs from the nonzero current frequency of the CPU's policy, and the
  driver does not claim constant loop timing, \<^verbatim>\<open>__cpufreq_get\<close> returns the
  frequency read, broadcasts one PRECHANGE and one POSTCHANGE with the policy's frequency
  as old and the one read as new, and schedules the policy's update work.  The policy's
  current frequency becomes the frequency read when the CPU asked about owns the policy;
  for another CPU of the policy it stays as it was.
\<close>

theorem cpufreq_get_desync_repair:
  assumes "cpufreq_driver e = Some drv" "drv_get drv = Some get"
    and "and (drv_flags drv) CPUFREQ_CONST_LOOPS = 0"
    and "cpufreq_cpu_data s c = Some p"
    and "get c \<noteq> 0" "cur (policies s p) \<noteq> 0" "get c \<noteq> cur (policies s p)"
  shows "\<exists>s'. uu_cpufreq_get e c s = Some (get c, s') \<and>
           trace s' = trace s @
             [Transition CPUFREQ_PRECHANGE
                \<lparr>cpu_fr = c, old = cur (policies s p), new = get c, flags = drv_flags drv\<rparr>,
              Transition CPUFREQ_POSTCHANGE
                \<lparr>cpu_fr = c, old = cur (policies s p), new = get c, flags = drv_flags drv\<rparr>]
             @ (if cpu (policies s p) = c then [SysfsNotify ''scaling_cur_freq''] else [])
             @ [ScheduleWork p] \<and>
           cur (policies s' p) = (if cpu (policies s p) = c then get c else cur (policies s p))"
  using assms
  by (simp add: uu_cpufreq_get_def cpufreq_out_of_sync_def cpufreq_notify_transition_def Let_def)

text \<open>
  The claim as stated fails for CPU 1, which shares the policy owned by CPU 0: the pair is
  broadcast and the update scheduled, and the current frequency is still 1000000.
\<close>

theorem cpufreq_get_desync_repair_counterexample:
  "cpufreq_cpu_data ex_state 1 = Some 1
   \<and> cur (policy_of 1 ex_state) = 1000000
   \<and> map_option fst (uu_cpufreq_get ex_env 1 ex_state) = Some 1200000
   \<and> map_option (cur \<circ> policy_of 1 \<circ> snd) (uu_cpufreq_get ex_env 1 ex_state) = Some 1000000
   \<and> map_option (trace \<circ> snd) (uu_cpufreq_get ex_env 1 ex_state) =
       Some [Transition CPUFREQ_PRECHANGE \<lparr>cpu_fr = 1, old = 1000000, new = 1200000, flags = 0\<rparr>,
             Transition CPUFREQ_POSTCHANGE \<lparr>cpu_fr = 1, old = 1000000, new = 1200000, flags = 0\<rparr>,
             ScheduleWork 1]"
  by (simp add: transition_defs ex_defs)

theorem cpufreq_get_desync_repair_witness:
  "cpufreq_cpu_data ex_state 0 = Some 1 \<and> cpu (policies ex_state 1) = 0
   \<and> cur (policies ex_state 1) = 1000000
   \<and> (\<exists>s'. uu_cpufreq_get ex_env 0 ex_state = Some (1200000, s') \<and>
           trace s' =
             [Transition CPUFREQ_PRECHANGE \<lparr>cpu_fr = 0, old = 1000000, new = 1200000, flags = 0\<rparr>,
              Transition CPUFREQ_POSTCHANGE \<lparr>cpu_fr = 0, old = 1000000, new = 1200000, flags = 0\<rparr>,
              SysfsNotify ''scaling_cur_freq'', ScheduleWork 1] \<and>
           cur (policies s' 1) = 1200000)"
proof -
  have h1: "cpufreq_driver ex_env = Some ex_drv" by (simp add: ex_defs)
  have h2: "drv_get ex_drv = Some (\<lambda>c. 1200000)" by (simp add: ex_defs)
  have h3: "and (drv_flags ex_drv) CPUFREQ_CONST_LOOPS = 0" by (simp add: ex_defs)
  have h4: "cpufreq_cpu_data ex_state 0 = Some 1" by (simp add: ex_defs)
  have h5: "(\<lambda>c::nat. 1200000::u32) 0 \<noteq> 0" by simp
  have h6: "cur (policies ex_state 1) \<noteq> 0" by (simp add: ex_defs)
  have h7: "(\<lambda>c::nat. 1200000::u32) 0 \<noteq> cur (policies ex_state 1)" by (simp add: ex_defs)
  have o: "cpu (policies ex_state 1) = 0" "cur (policies ex_state 1) = 1000000"
    "trace ex_state = []" "drv_flags ex_drv = 0"
    by (simp_all add: ex_defs)
  from cpufreq_get_desync_repair[OF h1 h2 h3 h4 h5 h6 h7] h4 o
  show ?thesis by simp
qed

subsection \<open>The attribute \<^verbatim>\<open>scaling_governor\<close>: the ceiling of 2803200 kHz\<close>

text \<open>
  Claim C9, as the source has it.  A write to \<^verbatim>\<open>scaling_governor\<close> that gets past
  the lookup of the policy, the scan of the name and the lookup of the governor, and whose
  inner \<^verbatim>\<open>__cpufreq_set_policy\<close> returns, leaves the policy's maximum at the smaller of
  what the inner call left and 2803200, whether the inner call succeeded or not; it
  returns the inner call's code when that is not 0 and \<open>count\<close> otherwise, as a 32-bit
  \<^verbatim>\<open>ssize_t\<close>.  A write that returns early (the CPU of the policy has no policy, the
  buffer is empty, the governor is not known) returns \<^verbatim>\<open>-EINVAL\<close> and leaves every
  policy, and so the maximum, as it was.
\<close>

theorem store_scaling_governor_caps_max:
  "(cpufreq_get_policy e s (cpu (policies s p)) = (0, Some new_policy) \<and>
    sscanf_s15 buf = Some str_governor \<and>
    cpufreq_parse_governor e str_governor new_policy s = (0, new_policy1, s1) \<and>
    uu_cpufreq_set_policy e (uni_lookup e p s1) (policies s1 p) new_policy1
      = Some (ret, data, policy', t) \<longrightarrow>
      (\<exists>s'. store_scaling_governor e p buf count s =
                 Some (if (word_of_int ret :: u32) \<noteq> 0 then sint (word_of_int ret :: u32)
                       else sint count, s') \<and>
            max_pol (policies s' p) = min (max_pol data) 2803200 \<and>
            max_pol (policies s' p) \<le> 2803200)) \<and>
   (snd (cpufreq_get_policy e s (cpu (policies s p))) = None \<longrightarrow>
      store_scaling_governor e p buf count s = Some (- EINVAL, s)) \<and>
   (snd (cpufreq_get_policy e s (cpu (policies s p))) = Some new_policy \<and>
    sscanf_s15 buf = None \<longrightarrow>
      store_scaling_governor e p buf count s = Some (- EINVAL, s)) \<and>
   (snd (cpufreq_get_policy e s (cpu (policies s p))) = Some new_policy \<and>
    sscanf_s15 buf = Some str_governor \<and>
    fst (cpufreq_parse_governor e str_governor new_policy s) \<noteq> 0 \<longrightarrow>
      (\<exists>s'. store_scaling_governor e p buf count s = Some (- EINVAL, s') \<and>
            policies s' = policies s))"
proof -
  have a: "\<exists>s'. store_scaling_governor e p buf count s =
                 Some (if (word_of_int ret :: u32) \<noteq> 0 then sint (word_of_int ret :: u32)
                       else sint count, s') \<and>
            max_pol (policies s' p) = min (max_pol data) 2803200 \<and>
            max_pol (policies s' p) \<le> 2803200"
    if "cpufreq_get_policy e s (cpu (policies s p)) = (0, Some new_policy)"
      "sscanf_s15 buf = Some str_governor"
      "cpufreq_parse_governor e str_governor new_policy s = (0, new_policy1, s1)"
      "uu_cpufreq_set_policy e (uni_lookup e p s1) (policies s1 p) new_policy1
         = Some (ret, data, policy', t)"
    using that by (auto simp add: store_scaling_governor_def Let_def min_def not_less)
  have b: "store_scaling_governor e p buf count s = Some (- EINVAL, s)"
    if n: "snd (cpufreq_get_policy e s (cpu (policies s p))) = None"
  proof -
    from get_policy_code[OF n] n
    have "cpufreq_get_policy e s (cpu (policies s p)) = (- EINVAL, None)"
      by (cases "cpufreq_get_policy e s (cpu (policies s p))") simp
    then show ?thesis by (simp add: store_scaling_governor_def EINVAL_def)
  qed
  have c: "store_scaling_governor e p buf count s = Some (- EINVAL, s)"
    if "snd (cpufreq_get_policy e s (cpu (policies s p))) = Some new_policy" "sscanf_s15 buf = None"
    using that
    by (cases "cpufreq_get_policy e s (cpu (policies s p))") (simp add: store_scaling_governor_def)
  have d: "\<exists>s'. store_scaling_governor e p buf count s = Some (- EINVAL, s') \<and>
            policies s' = policies s"
    if "snd (cpufreq_get_policy e s (cpu (policies s p))) = Some new_policy"
      "sscanf_s15 buf = Some str_governor"
      "fst (cpufreq_parse_governor e str_governor new_policy s) \<noteq> 0"
    using that parse_governor_policies[of e str_governor new_policy s]
    by (cases "cpufreq_get_policy e s (cpu (policies s p))")
       (simp add: store_scaling_governor_def case_prod_beta Let_def)
  from a b c d show ?thesis by blast
qed

text \<open>
  The claim as stated fails for a write that returns early: the name of a governor that
  does not exist gives \<^verbatim>\<open>-EINVAL\<close> and leaves a maximum of 2880000 as it is.
\<close>

theorem store_scaling_governor_caps_max_counterexample:
  "max_pol (policy_of 1 ex_state_fast) = 2880000
   \<and> map_option fst (store_scaling_governor ex_env 1 ''nosuchgov'' 10 ex_state_fast) = Some (- 22)
   \<and> map_option (max_pol \<circ> policy_of 1 \<circ> snd)
        (store_scaling_governor ex_env 1 ''nosuchgov'' 10 ex_state_fast) = Some 2880000
   \<and> \<not> (2880000 \<le> (2803200 :: u32))"
  by (simp add: store_scaling_governor_def cpufreq_get_policy_def cpufreq_cpu_get_def
        uu_cpufreq_cpu_get_def sscanf_s15_def isspace_def cpufreq_parse_governor_def
        uu_find_governor_def strnicmp_eq_def tolower_def CPUFREQ_NAME_LEN_def policy_of_def
        Let_def EINVAL_def ex_defs)

text \<open>
  Writing \<^verbatim>\<open>powersave\<close> to a policy whose maximum is 2880000 lowers it to 2803200; a
  \<open>count\<close> of \<open>2 ^ 32 - 1\<close> comes back as \<open>- 1\<close>; writing an unknown name changes nothing.
\<close>

theorem store_scaling_governor_caps_max_witness:
  "cpufreq_get_policy ex_env ex_state_fast (cpu (policies ex_state_fast 1)) = (0, Some ex_data_fast)
   \<and> sscanf_s15 ''powersave'' = Some ''powersave''
   \<and> cpufreq_parse_governor ex_env ''powersave'' ex_data_fast ex_state_fast
        = (0, ex_data_fast\<lparr>governor := Some gov_powersave\<rparr>, ex_state_fast)
   \<and> max_pol ex_data_fast = 2880000
   \<and> (\<exists>s'. store_scaling_governor ex_env 1 ''powersave'' 10 ex_state_fast = Some (10, s') \<and>
              max_pol (policies s' 1) = 2803200)
   \<and> (\<exists>s'. store_scaling_governor ex_env 1 ''powersave'' 4294967295 ex_state_fast
               = Some (- 1, s'))
   \<and> sscanf_s15 ''nosuchgov'' = Some ''nosuchgov''
   \<and> fst (cpufreq_parse_governor ex_env ''nosuchgov'' ex_data_fast ex_state_fast) = - 22
   \<and> (\<exists>s'. store_scaling_governor ex_env 1 ''nosuchgov'' 10 ex_state_fast = Some (- 22, s') \<and>
              max_pol (policies s' 1) = 2880000)"
proof -
  let ?p = "ex_data_fast\<lparr>governor := Some gov_powersave\<rparr>"
  have g: "cpufreq_get_policy ex_env ex_state_fast (cpu (policies ex_state_fast 1)) = (0, Some ex_data_fast)"
    by (simp add: cpufreq_get_policy_def cpufreq_cpu_get_def uu_cpufreq_cpu_get_def ex_defs)
  have sc: "sscanf_s15 ''powersave'' = Some ''powersave''"
    by (simp add: sscanf_s15_def isspace_def)
  have pa: "cpufreq_parse_governor ex_env ''powersave'' ex_data_fast ex_state_fast
        = (0, ?p, ex_state_fast)"
    by (simp add: cpufreq_parse_governor_def uu_find_governor_def strnicmp_eq_def tolower_def
          CPUFREQ_NAME_LEN_def ex_defs)
  have inner: "uu_cpufreq_set_policy ex_env (uni_lookup ex_env 1 ex_state_fast) (policies ex_state_fast 1) ?p
        = Some (0, ?p, ?p,
                [DrvVerify, PolicyNotify CPUFREQ_ADJUST, PolicyNotify CPUFREQ_INCOMPATIBLE, DrvVerify,
                 PolicyNotify CPUFREQ_NOTIFY, ModuleGet ''ondemand'',
                 GovCall ''ondemand'' CPUFREQ_GOV_STOP 0, ModulePut ''ondemand'',
                 ModulePut ''ondemand'', ModuleGet ''powersave'',
                 GovCall ''powersave'' CPUFREQ_GOV_START 0, ModuleGet ''powersave'',
                 GovCall ''powersave'' CPUFREQ_GOV_LIMITS 0, ModulePut ''powersave''])"
    by (simp add: set_policy_defs uni_lookup_def ex_defs)
  have m: "max_pol ex_data_fast = 2880000" by (simp add: ex_defs)
  have m2: "min (max_pol ?p) 2803200 = (2803200::u32)"
    by (simp add: ex_defs)
  note reach = store_scaling_governor_caps_max[THEN conjunct1, rule_format,
                 OF conjI[OF g conjI[OF sc conjI[OF pa inner]]]]
  have w: "(word_of_int 0 :: u32) = 0" "sint (10 :: u32) = 10" "sint (4294967295 :: u32) = - 1"
    by simp_all
  from reach[of 10] obtain s' where
    "store_scaling_governor ex_env 1 ''powersave'' 10 ex_state_fast = Some (10, s')"
    "max_pol (policies s' 1) = 2803200"
    unfolding m2 w by auto
  then have one: "\<exists>s'. store_scaling_governor ex_env 1 ''powersave'' 10 ex_state_fast = Some (10, s') \<and>
              max_pol (policies s' 1) = 2803200" by blast
  from reach[of 4294967295] obtain s'' where
    "store_scaling_governor ex_env 1 ''powersave'' 4294967295 ex_state_fast = Some (- 1, s'')"
    unfolding m2 w by auto
  then have big: "\<exists>s'. store_scaling_governor ex_env 1 ''powersave'' 4294967295 ex_state_fast
               = Some (- 1, s')" by blast
  have sc2: "sscanf_s15 ''nosuchgov'' = Some ''nosuchgov''"
    by (simp add: sscanf_s15_def isspace_def)
  have pa2: "fst (cpufreq_parse_governor ex_env ''nosuchgov'' ex_data_fast ex_state_fast) = - 22"
    by (simp add: cpufreq_parse_governor_def uu_find_governor_def strnicmp_eq_def tolower_def
          CPUFREQ_NAME_LEN_def EINVAL_def ex_defs)
  have pa3: "fst (cpufreq_parse_governor ex_env ''nosuchgov'' ex_data_fast ex_state_fast) \<noteq> 0"
    unfolding pa2 by simp
  have g2: "snd (cpufreq_get_policy ex_env ex_state_fast (cpu (policies ex_state_fast 1)))
              = Some ex_data_fast" unfolding g by simp
  have p1: "max_pol (policies ex_state_fast 1) = 2880000" by (simp add: ex_defs)
  note early = store_scaling_governor_caps_max[THEN conjunct2, THEN conjunct2, THEN conjunct2,
                 rule_format, OF conjI[OF g2 conjI[OF sc2 pa3]]]
  from early[of 10] obtain s3 where
    "store_scaling_governor ex_env 1 ''nosuchgov'' 10 ex_state_fast = Some (- EINVAL, s3)"
    "policies s3 = policies ex_state_fast" by blast
  then have two: "\<exists>s'. store_scaling_governor ex_env 1 ''nosuchgov'' 10 ex_state_fast = Some (- 22, s') \<and>
              max_pol (policies s' 1) = 2880000"
    using p1 by (simp add: EINVAL_def)
  show ?thesis
    using g sc pa m one big sc2 pa2 two by blast
qed

subsection \<open>Adding a CPU: failures after the driver's \<^verbatim>\<open>init\<close>\<close>

text \<open>
  Claim C2.  Every failure of \<^verbatim>\<open>cpufreq_add_dev\<close> after the driver's \<^verbatim>\<open>init\<close> succeeded
  should call the driver's \<^verbatim>\<open>exit\<close> before the error is returned.  The code does not when
  the kobject cannot be registered.  For an online CPU without a policy, whose semaphore
  is free, with every allocation and the driver's \<^verbatim>\<open>init\<close> succeeding and the CPUs of the
  provisional policy left alone by \<^verbatim>\<open>init\<close> and the \<^verbatim>\<open>CPUFREQ_START\<close> observers: if
  \<^verbatim>\<open>kobject_init_and_add\<close> fails, \<^verbatim>\<open>cpufreq_add_dev\<close> returns its code, and all it has
  called is \<^verbatim>\<open>init\<close>, the \<^verbatim>\<open>CPUFREQ_START\<close> notification and \<^verbatim>\<open>kobject_put\<close>; the
  driver's \<^verbatim>\<open>exit\<close> is not called, whether the driver has one or not.
\<close>

theorem add_dev_exit_missing:
  assumes drv: "cpufreq_driver e = Some drv" "try_module_get_drv e" "kzalloc e = Some p"
      "alloc_cpumask_var e" "zalloc_cpumask_var e"
    and cpu: "cpu_online s c" "cpufreq_cpu_data s c = None"
    and sem: "cpu_policy_rwsem s c = \<lparr>readers = 0, writer = False\<rparr>"
    and init: "\<forall>pol. fst (drv_init drv pol) = 0"
    and dom: "\<forall>pol. cpus (snd (drv_init drv pol)) = cpus pol"
      "\<forall>pol. cpus (policy_notifier e CPUFREQ_START pol) = cpus pol"
    and kobj: "kobject_init_and_add e \<noteq> 0"
  shows "\<exists>s'. cpufreq_add_dev e c s = Some (kobject_init_and_add e, s') \<and>
              trace s' = trace s @ [DrvInit p, PolicyNotify CPUFREQ_START, KobjectPut p]"
proof -
  have get: "cpufreq_cpu_get e s c = None"
    using cpu(2) drv(1) by (simp add: cpufreq_cpu_get_def uu_cpufreq_cpu_get_def)
  define s1 where "s1 = s\<lparr>cpufreq_policy_cpu := (cpufreq_policy_cpu s)(c := int c),
                          policies := (policies s)(p := zero_policy\<lparr>cpu := c, cpus := [c]\<rparr>)\<rparr>"
  define sl where "sl = s1\<lparr>cpu_policy_rwsem := (cpu_policy_rwsem s1)(c :=
                       \<lparr>readers = 0, writer = True\<rparr>)\<rparr>"
  have on1: "cpu_online s1 c" using cpu(1) by (simp add: cpu_online_def s1_def)
  have lk: "lock_policy_rwsem_write c s1 = Some (0, sl)"
    using lock_returns[of s1 c] sem on1 by (simp add: s1_def sl_def)
  define gv where "gv = (case sibling_governor sl c (cpu_online_mask sl) of
                           Some g \<Rightarrow> Some g | None \<Rightarrow> cpufreq_default_governor e)"
  define pol2 where "pol2 = snd (drv_init drv ((policies sl p)\<lparr>governor := gv\<rparr>))"
  define s3 where "s3 = sl\<lparr>trace := trace sl @ [DrvInit p], policies := (policies sl)(p := pol2)\<rparr>"
  define pol4 where "pol4 = policy_notifier e CPUFREQ_START
                      (pol2\<lparr>cpus := filter (cpu_online s3) (cpus pol2),
                            user_policy := (user_policy pol2)
                               \<lparr>min_real := min_pol pol2, max_real := max_pol pol2\<rparr>,
                            util := 0\<rparr>)"
  define s4 where "s4 = s3\<lparr>trace := trace s3 @ [PolicyNotify CPUFREQ_START],
                          policies := (policies s3)(p := pol4)\<rparr>"
  have eq: "cpufreq_add_dev e c s =
      (case cpufreq_add_dev_policy e drv c p s4 of
              None \<Rightarrow> None
            | Some (ret1, s5) \<Rightarrow>
                if ret1 \<noteq> 0 then err_unlock_policy c (if ret1 > 0 then 0 else ret1) s5
                else (case cpufreq_add_dev_interface e drv c p s5 of
                        None \<Rightarrow> None
                      | Some (ret2, s6) \<Rightarrow>
                          if ret2 \<noteq> 0
                          then err_unlock_policy c ret2
                                 ((unbind_cpus (cpus (policies s6 p)) s6)
                                    \<lparr>trace := trace s6 @ [KobjectPut p]\<rparr>)
                          else (case unlock_policy_rwsem_write c s6 of
                                  None \<Rightarrow> None
                                | Some s7 \<Rightarrow> Some (0, s7))))"
    using cpu(1) get drv init lk[unfolded s1_def]
    by (simp add: cpufreq_add_dev_def Let_def case_prod_beta gv_def pol2_def s3_def
          pol4_def s4_def)
  have c2: "cpus pol2 = [c]" using dom(1) by (simp add: pol2_def sl_def s1_def)
  have on3: "cpu_online s3 c" using cpu(1) by (simp add: cpu_online_def s3_def sl_def s1_def)
  have c4: "cpus pol4 = [c]" using dom(2) c2 on3 by (simp add: pol4_def)
  have p4: "cpus (policies s4 p) = [c]" using c4 by (simp add: s4_def)
  from add_dev_policy_no_sibling[OF p4, of e drv] obtain s5 where
    ap: "cpufreq_add_dev_policy e drv c p s4 = Some (0, s5)" and t5: "trace s5 = trace s4"
    and pc5: "cpufreq_policy_cpu s5 = cpufreq_policy_cpu s4"
    by blast
  have ai: "cpufreq_add_dev_interface e drv c p s5 = Some (kobject_init_and_add e, s5)"
    using kobj by (simp add: cpufreq_add_dev_interface_def)
  define s6 where "s6 = (unbind_cpus (cpus (policies s5 p)) s5)\<lparr>trace := trace s5 @ [KobjectPut p]\<rparr>"
  have pc6: "cpufreq_policy_cpu s6 c \<noteq> - 1"
    by (simp add: s6_def unbind_cpus_frame pc5 s4_def s3_def sl_def s1_def)
  have res: "cpufreq_add_dev e c s = Some (kobject_init_and_add e,
       s6\<lparr>cpu_policy_rwsem := (cpu_policy_rwsem s6)(nat (cpufreq_policy_cpu s6 c) :=
                     (cpu_policy_rwsem s6 (nat (cpufreq_policy_cpu s6 c)))\<lparr>writer := False\<rparr>)\<rparr>)"
    using kobj by (simp add: eq ap ai err_unlock_policy_def s6_def[symmetric]
                     unlock_returns[OF pc6])
  have tr: "trace s6 = trace s @ [DrvInit p, PolicyNotify CPUFREQ_START, KobjectPut p]"
    by (simp add: s6_def unbind_cpus_frame t5 s4_def s3_def sl_def s1_def)
  from res tr show ?thesis by simp
qed

text \<open>
  CPU 3 with a driver that has an \<^verbatim>\<open>exit\<close> callback: \<^verbatim>\<open>-ENOMEM\<close> from
  \<^verbatim>\<open>kobject_init_and_add\<close> is returned without \<^verbatim>\<open>exit\<close>.  When the governor's START
  fails instead, \<^verbatim>\<open>__cpufreq_set_policy\<close> fails inside \<^verbatim>\<open>cpufreq_add_dev_interface\<close>
  and the same call ends with \<^verbatim>\<open>exit\<close>.
\<close>

theorem add_dev_exit_missing_witness:
  "drv_exit ex_drv
   \<and> kobject_init_and_add ex_env_kobject_fails = - ENOMEM
   \<and> map_option fst (cpufreq_add_dev ex_env_kobject_fails 3 ex_state) = Some (- ENOMEM)
   \<and> map_option (trace \<circ> snd) (cpufreq_add_dev ex_env_kobject_fails 3 ex_state)
        = Some [DrvInit 7, PolicyNotify CPUFREQ_START, KobjectPut 7]
   \<and> map_option fst (cpufreq_add_dev ex_env_start_fails 3 ex_state) = Some (- EINVAL)
   \<and> map_option (trace \<circ> snd) (cpufreq_add_dev ex_env_start_fails 3 ex_state)
        = Some [DrvInit 7, PolicyNotify CPUFREQ_START, DrvVerify,
                PolicyNotify CPUFREQ_ADJUST, PolicyNotify CPUFREQ_INCOMPATIBLE,
                DrvVerify, PolicyNotify CPUFREQ_NOTIFY, ModuleGet ''ondemand'',
                GovCall ''ondemand'' CPUFREQ_GOV_START (- 22), ModulePut ''ondemand'',
                DrvExit 7, KobjectPut 7]"
proof -
  have h1: "cpufreq_driver ex_env_kobject_fails = Some ex_drv"
    "try_module_get_drv ex_env_kobject_fails" "kzalloc ex_env_kobject_fails = Some 7"
    "alloc_cpumask_var ex_env_kobject_fails" "zalloc_cpumask_var ex_env_kobject_fails"
    by (simp_all add: ex_defs)
  have h2: "cpu_online ex_state 3" "cpufreq_cpu_data ex_state 3 = None"
    "cpu_policy_rwsem ex_state 3 = \<lparr>readers = 0, writer = False\<rparr>"
    by (simp_all add: ex_defs cpu_online_def)
  have h3: "\<forall>pol. fst (drv_init ex_drv pol) = 0"
    "\<forall>pol. cpus (snd (drv_init ex_drv pol)) = cpus pol"
    "\<forall>pol. cpus (policy_notifier ex_env_kobject_fails CPUFREQ_START pol) = cpus pol"
    by (simp_all add: ex_defs)
  have k: "kobject_init_and_add ex_env_kobject_fails = - ENOMEM"
    by (simp add: ex_defs ENOMEM_def)
  have h4: "kobject_init_and_add ex_env_kobject_fails \<noteq> 0"
    by (simp add: k ENOMEM_def)
  have x: "drv_exit ex_drv" by (simp add: ex_defs)
  have contrast: "map_option fst (cpufreq_add_dev ex_env_start_fails 3 ex_state) = Some (- EINVAL)
   \<and> map_option (trace \<circ> snd) (cpufreq_add_dev ex_env_start_fails 3 ex_state)
        = Some [DrvInit 7, PolicyNotify CPUFREQ_START, DrvVerify,
                PolicyNotify CPUFREQ_ADJUST, PolicyNotify CPUFREQ_INCOMPATIBLE,
                DrvVerify, PolicyNotify CPUFREQ_NOTIFY, ModuleGet ''ondemand'',
                GovCall ''ondemand'' CPUFREQ_GOV_START (- 22), ModulePut ''ondemand'',
                DrvExit 7, KobjectPut 7]"
    by (simp add: add_defs set_policy_defs ex_defs)
  have t0: "trace ex_state = []" by (simp add: ex_defs)
  from add_dev_exit_missing[OF h1 h2 h3 h4]
  obtain s' where "cpufreq_add_dev ex_env_kobject_fails 3 ex_state
                     = Some (kobject_init_and_add ex_env_kobject_fails, s')"
    and "trace s' = trace ex_state @ [DrvInit 7, PolicyNotify CPUFREQ_START, KobjectPut 7]"
    by blast
  with k t0 x contrast show ?thesis by simp
qed

subsection \<open>Hotplug: the policy intent survives an offline/online cycle\<close>




end
